theory Spec2Isabelle
  imports Main "HOL-Library.Word"
begin

section \<open>The signaling relay (src/p2p/i.js)\<close>

text \<open>
  The relay is a socket.io server. Every connection has an identifier \<open>socket.id\<close>
  assigned by the server; \<open>io.sockets.sockets\<close> is the map of the live connections,
  whose keys are read in insertion order. The negotiation payload is opaque to the relay,
  so it is a type parameter of the model.
\<close>

type_synonym socket_id = string

text \<open>
  The events the clients of this repository emit on the signaling socket
  (\<open>state.socket.emit\<close> in app.js): \<open>offer\<close>, \<open>answer\<close> and \<open>ice-candidate\<close> carry a payload
  and a target identifier, \<open>discover\<close> carries nothing.
\<close>

datatype 'p client_event =
    COffer 'p socket_id
  | CAnswer 'p socket_id
  | CIceCandidate 'p socket_id
  | CDiscover

text \<open>The events the relay emits, with their arguments in the order of the \<open>emit\<close> call.\<close>

datatype 'p server_event =
    SPeers "socket_id list"
  | SOffer 'p socket_id
  | SAnswer 'p
  | SIceCandidate 'p

text \<open>
  The two ways i.js emits: \<open>socket.emit(ev)\<close> goes to the connection itself;
  \<open>socket.to(room).emit(ev)\<close> goes to the connections in \<open>room\<close> except the emitting one.
  \<open>EmitTo room sender ev\<close> records the room and the emitting connection.
\<close>

datatype 'p emission =
    EmitSelf socket_id "'p server_event"
  | EmitTo socket_id socket_id "'p server_event"

record relay =
  sockets :: "socket_id list"
  intervals :: "socket_id list"

definition relay_init :: relay where
  "relay_init = \<lparr>sockets = [], intervals = []\<rparr>"

text \<open>
  \<open>broadcastPeers\<close> (i.js 32-36): the keys of \<open>io.sockets.sockets\<close> other than the
  connection's own identifier, emitted to the connection as \<open>peers\<close>.
\<close>

definition broadcastPeers :: "relay \<Rightarrow> socket_id \<Rightarrow> 'p emission" where
  "broadcastPeers r sid = EmitSelf sid (SPeers (filter (\<lambda>id. id \<noteq> sid) (sockets r)))"

text \<open>
  The listeners registered on a connection (i.js 45-55). There is a listener for \<open>offer\<close>,
  \<open>answer\<close> and \<open>ice-candidate\<close>; none is registered for \<open>discover\<close>, and socket.io drops an
  event that has no listener.
\<close>

fun on_client_event :: "socket_id \<Rightarrow> 'p client_event \<Rightarrow> 'p emission list" where
  "on_client_event sid (COffer offer targetId) = [EmitTo targetId sid (SOffer offer sid)]"
| "on_client_event sid (CAnswer answer targetId) = [EmitTo targetId sid (SAnswer answer)]"
| "on_client_event sid (CIceCandidate candidate targetId) =
     [EmitTo targetId sid (SIceCandidate candidate)]"
| "on_client_event sid CDiscover = []"

text \<open>
  What happens at the relay: a connection is made, a connection is closed, the 3000 ms
  interval of a connection fires, or a connection's client emits an event.
\<close>

datatype 'p relay_input =
    Connection socket_id
  | Disconnect socket_id
  | IntervalFires socket_id
  | FromClient socket_id "'p client_event"

fun relay_step :: "relay \<Rightarrow> 'p relay_input \<Rightarrow> relay \<times> 'p emission list" where
  "relay_step r (Connection sid) =
     (r\<lparr>sockets := sockets r @ [sid], intervals := intervals r @ [sid]\<rparr>, [])"
| "relay_step r (Disconnect sid) =
     (r\<lparr>sockets := filter (\<lambda>id. id \<noteq> sid) (sockets r),
        intervals := filter (\<lambda>id. id \<noteq> sid) (intervals r)\<rparr>, [])"
| "relay_step r (IntervalFires sid) =
     (r, if sid \<in> set (intervals r) then [broadcastPeers r sid] else [])"
| "relay_step r (FromClient sid ev) =
     (r, if sid \<in> set (sockets r) then on_client_event sid ev else [])"

text \<open>
  Delivery of an emission by socket.io. Every connection is in the room named by its own
  identifier and i.js joins no other room, so the room \<open>targetId\<close> holds the connection
  \<open>targetId\<close> when it is live and nothing otherwise; \<open>socket.to\<close> leaves the emitting
  connection out.
\<close>

fun deliver :: "relay \<Rightarrow> 'p emission \<Rightarrow> (socket_id \<times> 'p server_event) list" where
  "deliver r (EmitSelf sid ev) = [(sid, ev)]"
| "deliver r (EmitTo room sender ev) =
     map (\<lambda>t. (t, ev)) (filter (\<lambda>t. t = room \<and> t \<noteq> sender) (sockets r))"

definition deliveries :: "relay \<Rightarrow> 'p relay_input \<Rightarrow> (socket_id \<times> 'p server_event) list" where
  "deliveries r i = concat (map (deliver r) (snd (relay_step r i)))"

fun relay_run :: "relay \<Rightarrow> 'p relay_input list \<Rightarrow> relay" where
  "relay_run r [] = r"
| "relay_run r (i # is) = relay_run (fst (relay_step r i)) is"

section \<open>JavaScript values, exceptions and configuration (src/p2p/public/app.js)\<close>

text \<open>
  A call of a function of the program either returns or is left by an exception, which is
  recorded by the text that describes the thrown value. State changes made before a throw
  stay, so a function of the program returns its outcome together with the state it leaves.
\<close>

datatype 'a outcome = Returned 'a | Threw string

text \<open>The JavaScript values that the configuration and the \<open>/network\<close> response hold.\<close>

datatype jsval = Undefined | Null | Num nat | Str string | IceServers "string list"

definition digit :: "nat \<Rightarrow> char" where
  "digit d =
     (if d = 0 then CHR ''0'' else if d = 1 then CHR ''1'' else if d = 2 then CHR ''2''
      else if d = 3 then CHR ''3'' else if d = 4 then CHR ''4'' else if d = 5 then CHR ''5''
      else if d = 6 then CHR ''6'' else if d = 7 then CHR ''7'' else if d = 8 then CHR ''8''
      else CHR ''9'')"

fun show_nat :: "nat \<Rightarrow> string" where
  "show_nat n = (if n < 10 then [digit n] else show_nat (n div 10) @ [digit (n mod 10)])"

text \<open>
  A value inside a template literal. An array is rendered as its elements joined by commas,
  and an object that is not an array as \<open>[object Object]\<close>.
\<close>

fun join :: "string \<Rightarrow> string list \<Rightarrow> string" where
  "join sep [] = ''''"
| "join sep [x] = x"
| "join sep (x # y # rest) = x @ sep @ join sep (y # rest)"

fun template :: "jsval \<Rightarrow> string" where
  "template Undefined = ''undefined''"
| "template Null = ''null''"
| "template (Num n) = show_nat n"
| "template (Str s) = s"
| "template (IceServers urls) = join '','' (map (\<lambda>u. ''[object Object]'') urls)"

text \<open>
  What a call of the peer library throws: an \<open>Error\<close> object with its message, or any other
  value. Reading \<open>error.message\<close> gives the message of an \<open>Error\<close> object; it throws a
  \<open>TypeError\<close> when the value is \<open>null\<close> or \<open>undefined\<close>, which have no properties, and it
  gives \<open>undefined\<close> for every other value. \<open>describe\<close> is the text by which the console
  and the browser report a thrown value.
\<close>

datatype thrown_value = ErrorObject string | Thrown jsval

fun error_message :: "thrown_value \<Rightarrow> jsval outcome" where
  "error_message (ErrorObject msg) = Returned (Str msg)"
| "error_message (Thrown Null) = Threw ''TypeError: Cannot read properties of null''"
| "error_message (Thrown Undefined) = Threw ''TypeError: Cannot read properties of undefined''"
| "error_message (Thrown v) = Returned Undefined"

fun describe :: "thrown_value \<Rightarrow> string" where
  "describe (ErrorObject msg) = msg"
| "describe (Thrown v) = template v"

text \<open>Reading a property of an object literal: a key the literal does not have reads \<open>undefined\<close>.\<close>

definition get_prop :: "(string \<times> jsval) list \<Rightarrow> string \<Rightarrow> jsval" where
  "get_prop obj k = (case map_of obj k of None \<Rightarrow> Undefined | Some v \<Rightarrow> v)"

definition CHUNK_SIZE :: nat where
  "CHUNK_SIZE = 16384"

text \<open>The \<open>config\<close> object (app.js 18-27).\<close>

definition config :: "(string \<times> jsval) list" where
  "config =
     [(''CHUNK_SIZE'', Num CHUNK_SIZE),
      (''ICE_SERVERS'', IceServers [''stun:stun.l.google.com:19302'',
                                    ''stun:stun1.l.google.com:19302'',
                                    ''stun:stun2.l.google.com:19302'']),
      (''RECONNECT_DELAY'', Num 3000),
      (''TRANSFER_TIMEOUT'', Num 30000)]"

section \<open>Files, messages and the peer connection\<close>

type_synonym byte = "8 word"

text \<open>
  A browser \<open>File\<close>. Its \<open>size\<close> property is the number of bytes of its content, so it is
  derived from the content here.
\<close>

record File =
  name :: string
  type :: string
  lastModified :: nat
  content :: "byte list"

definition file_size :: "File \<Rightarrow> nat" where
  "file_size f = length (content f)"

text \<open>A file descriptor of the metadata message: \<open>{name, type, size, lastModified}\<close>.\<close>

record descriptor =
  d_name :: string
  d_type :: string
  d_size :: nat
  d_lastModified :: nat

definition descriptor_of :: "File \<Rightarrow> descriptor" where
  "descriptor_of f =
     \<lparr>d_name = name f, d_type = type f, d_size = file_size f, d_lastModified = lastModified f\<rparr>"

text \<open>
  What is sent on the data channel: the metadata control message
  \<open>{type: "metadata", files, totalSize, timestamp}\<close> (sent as JSON text) and raw binary chunks.
\<close>

datatype message =
    Metadata "descriptor list" nat nat
  | Chunk "byte list"

text \<open>
  A \<open>SimplePeer\<close> object. \<open>channel\<close> is what its \<open>send\<close> has accepted, in order.
  \<open>send_faults\<close> and \<open>destroy_throws\<close> are the object's environment: the outcomes of its
  coming \<open>send\<close> calls (\<open>Some v\<close>: the call throws the value \<open>v\<close>) and what \<open>destroy\<close>
  throws, if anything. \<open>connect_clears\<close> is the timer that the object's \<open>connect\<close> listener
  clears (the variable \<open>transferTimeout\<close> the listener closes over).
\<close>

record peer =
  connected :: bool
  destroyed :: bool
  initiator :: bool
  channel :: "message list"
  send_faults :: "thrown_value option list"
  destroy_throws :: "thrown_value option"
  connect_clears :: "nat option"

text \<open>
  \<open>peer.send(data)\<close>, with what it throws (\<open>None\<close>: it returns). The library throws an
  \<open>Error\<close> when the peer is destroyed or its channel is not open; otherwise the next entry of
  \<open>send_faults\<close> decides.
\<close>

definition peer_send :: "message \<Rightarrow> peer \<Rightarrow> thrown_value option \<times> peer" where
  "peer_send data p =
     (if destroyed p \<or> \<not> connected p then
        (Some (ErrorObject ''cannot send: channel not open''), p)
      else case send_faults p of
             [] \<Rightarrow> (None, p\<lparr>channel := channel p @ [data]\<rparr>)
           | None # rest \<Rightarrow> (None, p\<lparr>channel := channel p @ [data], send_faults := rest\<rparr>)
           | Some v # rest \<Rightarrow> (Some v, p\<lparr>send_faults := rest\<rparr>))"

text \<open>
  \<open>peer.destroy()\<close>, with what it throws: it marks the peer destroyed and closes its channel,
  and it may throw.
\<close>

definition peer_destroy :: "peer \<Rightarrow> thrown_value option \<times> peer" where
  "peer_destroy p = (destroy_throws p, p\<lparr>destroyed := True, connected := False\<rparr>)"

text \<open>\<open>new SimplePeer({initiator: true, ...})\<close> (app.js 196-200).\<close>

definition SimplePeer :: "thrown_value option list \<Rightarrow> thrown_value option \<Rightarrow> peer" where
  "SimplePeer faults dthrows =
     \<lparr>connected = False, destroyed = False, initiator = True, channel = [],
      send_faults = faults, destroy_throws = dthrows, connect_clears = None\<rparr>"

section \<open>The signaling socket, the page and the client state\<close>

record socket_options =
  reconnection :: bool
  reconnectionAttempts :: jsval
  reconnectionDelay :: jsval
  transports :: "string list"

record socket =
  sock_id :: string
  sock_connected :: bool
  sock_options :: socket_options
  emitted :: "string client_event list"

text \<open>
  The cached DOM elements (app.js 30-45) that the functions below touch. \<open>getElementById\<close>
  gives \<open>null\<close> for an element the page does not have, which is \<open>None\<close>; an element that is
  there is the value of the one property the code uses: \<open>textContent\<close> of \<open>discoverBtn\<close>,
  \<open>progressText\<close> and \<open>speedText\<close>, \<open>files\<close> of \<open>fileSelector\<close>, the rendered items of
  \<open>fileList\<close> (file name, formatted size, \<open>data-index\<close> of the remove button), \<open>disabled\<close> of
  \<open>sendBtn\<close>, \<open>value\<close> of \<open>progressBar\<close>.
\<close>

record elements =
  discoverBtn :: "string option"
  fileSelector :: "File list option option"
  fileList :: "(string \<times> string \<times> nat) list option"
  sendBtn :: "bool option"
  progressBar :: "nat option"
  progressText :: "string option"
  speedText :: "string option"

datatype callback = TransferTimeout | InitializeSocketConnection | DiscoveryInterval

record timer =
  timer_id :: nat
  timer_callback :: callback
  timer_delay :: jsval
  timer_repeats :: bool

text \<open>
  The \<open>state\<close> object (app.js 2-16), followed by what the program reaches besides it: the
  page, the sink of \<open>logMessage\<close> (text and level; \<open>None\<close> where the call gives no level),
  the console, the pending timers, the last value given to \<open>updateConnectionStatus\<close>, and
  \<open>released\<close>, the peer objects that \<open>state.peer\<close> no longer refers to.
\<close>

record state =
  socket :: "socket option"
  peer :: "peer option"
  localPeerId :: string
  selectedPeerId :: string
  fileQueue :: "File list"
  currentFileIndex :: nat
  currentFile :: "File option"
  currentOffset :: nat
  receivedBuffers :: "(nat \<times> byte list list) list"
  receivedSize :: nat
  totalSize :: nat
  connectionAttempts :: nat
  maxConnectionAttempts :: nat
  elements :: elements
  transferLog :: "(string \<times> string option) list"
  console :: "string list"
  timers :: "timer list"
  next_timer :: nat
  connectionStatus :: "bool option"
  released :: "peer list"

definition initial_state :: "elements \<Rightarrow> state" where
  "initial_state els =
     \<lparr>socket = None, peer = None, localPeerId = '''', selectedPeerId = '''', fileQueue = [],
      currentFileIndex = 0, currentFile = None, currentOffset = 0, receivedBuffers = [],
      receivedSize = 0, totalSize = 0, connectionAttempts = 0, maxConnectionAttempts = 5,
      elements = els, transferLog = [], console = [], timers = [], next_timer = 0,
      connectionStatus = None, released = []\<rparr>"

text \<open>
  Modelled from the spec: \<open>logMessage\<close> and \<open>updateConnectionStatus\<close>, helpers that app.js
  calls and does not define. Section 7: all failures are surfaced via a log/notification
  sink, an external collaborator, and none crash the process; section 7 also names the status
  indicator by which the state of the signaling connection is surfaced. So \<open>logMessage\<close>
  hands its text and level to the sink and returns, and \<open>updateConnectionStatus\<close> sets the
  indicator and returns.
\<close>

definition logMessage :: "string \<Rightarrow> string option \<Rightarrow> state \<Rightarrow> state" where
  "logMessage text level s = s\<lparr>transferLog := transferLog s @ [(text, level)]\<rparr>"

definition updateConnectionStatus :: "bool \<Rightarrow> state \<Rightarrow> state" where
  "updateConnectionStatus b s = s\<lparr>connectionStatus := Some b\<rparr>"

definition setTimeout :: "callback \<Rightarrow> jsval \<Rightarrow> state \<Rightarrow> nat \<times> state" where
  "setTimeout cb d s =
     (next_timer s,
      s\<lparr>timers := timers s @ [\<lparr>timer_id = next_timer s, timer_callback = cb, timer_delay = d,
                                timer_repeats = False\<rparr>],
        next_timer := Suc (next_timer s)\<rparr>)"

definition setInterval :: "callback \<Rightarrow> jsval \<Rightarrow> state \<Rightarrow> nat \<times> state" where
  "setInterval cb d s =
     (next_timer s,
      s\<lparr>timers := timers s @ [\<lparr>timer_id = next_timer s, timer_callback = cb, timer_delay = d,
                                timer_repeats = True\<rparr>],
        next_timer := Suc (next_timer s)\<rparr>)"

definition clearTimeout :: "nat \<Rightarrow> state \<Rightarrow> state" where
  "clearTimeout tid s = s\<lparr>timers := filter (\<lambda>t. timer_id t \<noteq> tid) (timers s)\<rparr>"

section \<open>Sending on the data channel\<close>

text \<open>
  \<open>sendData\<close> (app.js 254-267). The \<open>catch\<close> block reads \<open>error.message\<close> for the log text;
  when that read throws, the exception leaves \<open>sendData\<close>.
\<close>

definition sendData :: "message \<Rightarrow> state \<Rightarrow> bool outcome \<times> state" where
  "sendData data s =
     (case peer s of
        None \<Rightarrow>
          (Returned False, logMessage ''Cannot send data - peer not connected'' (Some ''error'') s)
      | Some p \<Rightarrow>
          if \<not> connected p then
            (Returned False, logMessage ''Cannot send data - peer not connected'' (Some ''error'') s)
          else
            (case peer_send data p of
               (None, p') \<Rightarrow> (Returned True, s\<lparr>peer := Some p'\<rparr>)
             | (Some error, p') \<Rightarrow>
                 (case error_message error of
                    Returned message \<Rightarrow>
                      (Returned False,
                       logMessage (''Failed to send data: '' @ template message) (Some ''error'')
                         (s\<lparr>peer := Some p'\<rparr>))
                  | Threw type_error \<Rightarrow> (Threw type_error, s\<lparr>peer := Some p'\<rparr>))))"

text \<open>
  Modelled from the spec: \<open>sendNextFile\<close>, which \<open>startFileTransfer\<close> calls (app.js 250) and
  app.js does not define. Section 4.3, sender algorithm, steps 3 to 5: for file index
  0..N-1, repeatedly slice up to \<open>CHUNK_SIZE\<close> unsent bytes from the current file and send them
  as a chunk; advance the byte offset; when the offset reaches the file's size, advance to
  the next file index and reset the offset to 0; after the last file's last chunk the session
  is \<open>AllSent\<close>; if a send fails, halt (the failure is reported by \<open>sendData\<close>). An
  exception that leaves \<open>sendData\<close> leaves \<open>sendNextFile\<close> too.
\<close>

function sendNextFile :: "state \<Rightarrow> unit outcome \<times> state" where
  "sendNextFile s =
     (if length (fileQueue s) \<le> currentFileIndex s then (Returned (), s)
      else if file_size (fileQueue s ! currentFileIndex s) \<le> currentOffset s then
        sendNextFile (s\<lparr>currentFileIndex := Suc (currentFileIndex s), currentOffset := 0\<rparr>)
      else
        (let chunk = take CHUNK_SIZE
                       (drop (currentOffset s) (content (fileQueue s ! currentFileIndex s)));
             r = sendData (Chunk chunk) s
         in if fst r = Returned True then
              sendNextFile ((snd r)\<lparr>currentOffset := currentOffset s + length chunk\<rparr>)
            else (case fst r of Threw msg \<Rightarrow> Threw msg | Returned b \<Rightarrow> Returned (), snd r)))"
  by pat_completeness auto
termination
proof (relation "measures [\<lambda>s. length (fileQueue s) - currentFileIndex s,
                           \<lambda>s. file_size (fileQueue s ! currentFileIndex s) - currentOffset s]")
  show "wf (measures [\<lambda>s. length (fileQueue s) - currentFileIndex s,
                      \<lambda>s. file_size (fileQueue s ! currentFileIndex s) - currentOffset s])"
    by simp
next
  fix s :: state
  assume "\<not> length (fileQueue s) \<le> currentFileIndex s"
  then show "(s\<lparr>currentFileIndex := Suc (currentFileIndex s), currentOffset := 0\<rparr>, s)
               \<in> measures [\<lambda>s. length (fileQueue s) - currentFileIndex s,
                            \<lambda>s. file_size (fileQueue s ! currentFileIndex s) - currentOffset s]"
    by auto
next
  fix s :: state and chunk r
  assume more: "\<not> file_size (fileQueue s ! currentFileIndex s) \<le> currentOffset s"
    and chunk: "chunk = take CHUNK_SIZE
                          (drop (currentOffset s) (content (fileQueue s ! currentFileIndex s)))"
    and r: "r = sendData (Chunk chunk) s"
  from more chunk have "0 < length chunk"
    by (simp add: file_size_def CHUNK_SIZE_def)
  with more
  have "file_size (fileQueue s ! currentFileIndex s) - (currentOffset s + length chunk)
          < file_size (fileQueue s ! currentFileIndex s) - currentOffset s"
    by arith
  moreover have "fileQueue (snd r) = fileQueue s"
    and "currentFileIndex (snd r) = currentFileIndex s"
    unfolding r
    by (auto simp: sendData_def logMessage_def split: option.splits prod.splits outcome.splits)
  ultimately
  show "((snd r)\<lparr>currentOffset := currentOffset s + length chunk\<rparr>, s)
          \<in> measures [\<lambda>s. length (fileQueue s) - currentFileIndex s,
                       \<lambda>s. file_size (fileQueue s ! currentFileIndex s) - currentOffset s]"
    by simp
qed

declare sendNextFile.simps [simp del]

text \<open>\<open>startFileTransfer\<close> (app.js 229-251); \<open>now\<close> is the value of \<open>Date.now()\<close>.\<close>

definition startFileTransfer :: "nat \<Rightarrow> state \<Rightarrow> unit outcome \<times> state" where
  "startFileTransfer now s =
     (let s1 = s\<lparr>currentFileIndex := 0, currentOffset := 0, receivedSize := 0\<rparr>;
          filesMetadata = map descriptor_of (fileQueue s1);
          r = sendData (Metadata filesMetadata (totalSize s1) now) s1
      in case fst r of
           Threw msg \<Rightarrow> (Threw msg, snd r)
         | Returned b \<Rightarrow> sendNextFile (snd r))"

section \<open>Teardown and transfer initiation\<close>

text \<open>Assignments to a property of a cached element; the element being \<open>null\<close> throws.\<close>

definition null_element :: string where
  "null_element = ''TypeError: Cannot set properties of null''"

definition set_discoverBtn :: "string \<Rightarrow> state \<Rightarrow> unit outcome \<times> state" where
  "set_discoverBtn v s =
     (case discoverBtn (elements s) of
        None \<Rightarrow> (Threw null_element, s)
      | Some old \<Rightarrow> (Returned (), s\<lparr>elements := (elements s)\<lparr>discoverBtn := Some v\<rparr>\<rparr>))"

definition set_progressBar :: "nat \<Rightarrow> state \<Rightarrow> unit outcome \<times> state" where
  "set_progressBar v s =
     (case progressBar (elements s) of
        None \<Rightarrow> (Threw null_element, s)
      | Some old \<Rightarrow> (Returned (), s\<lparr>elements := (elements s)\<lparr>progressBar := Some v\<rparr>\<rparr>))"

definition set_progressText :: "string \<Rightarrow> state \<Rightarrow> unit outcome \<times> state" where
  "set_progressText v s =
     (case progressText (elements s) of
        None \<Rightarrow> (Threw null_element, s)
      | Some old \<Rightarrow> (Returned (), s\<lparr>elements := (elements s)\<lparr>progressText := Some v\<rparr>\<rparr>))"

definition set_speedText :: "string \<Rightarrow> state \<Rightarrow> unit outcome \<times> state" where
  "set_speedText v s =
     (case speedText (elements s) of
        None \<Rightarrow> (Threw null_element, s)
      | Some old \<Rightarrow> (Returned (), s\<lparr>elements := (elements s)\<lparr>speedText := Some v\<rparr>\<rparr>))"

definition set_sendBtn :: "bool \<Rightarrow> state \<Rightarrow> unit outcome \<times> state" where
  "set_sendBtn v s =
     (case sendBtn (elements s) of
        None \<Rightarrow> (Threw null_element, s)
      | Some old \<Rightarrow> (Returned (), s\<lparr>elements := (elements s)\<lparr>sendBtn := Some v\<rparr>\<rparr>))"

text \<open>Statement sequencing: the next statement runs unless the one before threw.\<close>

definition and_then ::
  "unit outcome \<times> state \<Rightarrow> (state \<Rightarrow> unit outcome \<times> state) \<Rightarrow> unit outcome \<times> state" where
  "and_then r f = (case fst r of Threw msg \<Rightarrow> (Threw msg, snd r) | Returned u \<Rightarrow> f (snd r))"

text \<open>
  \<open>cleanup\<close> (app.js 270-287). \<open>cleanup_peer\<close> is its \<open>if (state.peer)\<close> block, which
  cannot throw: an exception of \<open>destroy\<close> is caught and written to the console, and the
  reference is set to \<open>null\<close> in both cases. \<open>reset_page\<close> is its last four statements.
\<close>

definition cleanup_peer :: "state \<Rightarrow> state" where
  "cleanup_peer s =
     (case peer s of
        None \<Rightarrow> s
      | Some p \<Rightarrow>
          (case peer_destroy p of
             (None, p') \<Rightarrow> s\<lparr>peer := None, released := released s @ [p']\<rparr>
           | (Some error, p') \<Rightarrow>
               s\<lparr>console := console s @ [''Error cleaning up peer: '' @ describe error],
                 peer := None, released := released s @ [p']\<rparr>))"

definition reset_page :: "state \<Rightarrow> unit outcome \<times> state" where
  "reset_page s =
     and_then (and_then (and_then
       (set_discoverBtn ''Discover Peers'' s)
       (set_progressBar 0))
       (set_progressText ''0%''))
       (set_speedText ''Speed: 0 KB/s'')"

definition cleanup :: "state \<Rightarrow> unit outcome \<times> state" where
  "cleanup s = reset_page ((cleanup_peer s)\<lparr>selectedPeerId := ''''\<rparr>)"

text \<open>
  \<open>initiateTransfer\<close> (app.js 182-226). \<open>faults\<close> and \<open>dthrows\<close> are the environment of the
  \<open>SimplePeer\<close> object it creates. \<open>destroy\<close> is not guarded here: if it throws, the function
  is left with \<open>state.peer\<close> still referring to the old object. \<open>setupPeerEvents\<close> is a helper
  that app.js does not define; it is taken to register listeners and change nothing else.
  The \<open>connect\<close> and \<open>signal\<close> listeners are registered on the new object; the \<open>connect\<close>
  listener is \<open>peer_connects\<close> below.
\<close>

definition initiateTransfer ::
  "thrown_value option list \<Rightarrow> thrown_value option \<Rightarrow> state \<Rightarrow> unit outcome \<times> state" where
  "initiateTransfer faults dthrows s =
     (if selectedPeerId s = '''' \<or> length (fileQueue s) = 0 then
        (Returned (), logMessage ''Please select a peer and files first'' (Some ''error'') s)
      else
        and_then
          (let s1 = logMessage ''Initiating transfer...'' None s
           in case peer s1 of
                None \<Rightarrow> (Returned (), s1)
              | Some p \<Rightarrow>
                  (case peer_destroy p of
                     (Some error, p') \<Rightarrow> (Threw (describe error), s1\<lparr>peer := Some p'\<rparr>)
                   | (None, p') \<Rightarrow>
                       (Returned (), s1\<lparr>peer := None, released := released s1 @ [p']\<rparr>)))
          (\<lambda>s2.
             let s3 = s2\<lparr>peer := Some (SimplePeer faults dthrows)\<rparr>;
                 t = setTimeout TransferTimeout (get_prop config ''TRANSFER_TIMEOUT'') s3
             in (Returned (),
                 (snd t)\<lparr>peer := Some ((SimplePeer faults dthrows)\<lparr>connect_clears := Some (fst t)\<rparr>)\<rparr>)))"

text \<open>The callback of the transfer timeout (app.js 205-210).\<close>

definition transfer_timeout :: "state \<Rightarrow> unit outcome \<times> state" where
  "transfer_timeout s =
     (case peer s of
        None \<Rightarrow> (Returned (), s)
      | Some p \<Rightarrow>
          if \<not> connected p then
            cleanup (logMessage ''Transfer timeout - connection took too long'' (Some ''error'') s)
          else (Returned (), s))"

text \<open>
  The data channel of \<open>state.peer\<close> opens: the library sets \<open>connected\<close> and the \<open>connect\<close>
  listener registered by \<open>initiateTransfer\<close> runs (app.js 212-216). A destroyed peer does not
  connect, and a peer without that listener starts no transfer.
\<close>

definition peer_connects :: "nat \<Rightarrow> state \<Rightarrow> unit outcome \<times> state" where
  "peer_connects now s =
     (case peer s of
        None \<Rightarrow> (Returned (), s)
      | Some p \<Rightarrow>
          if destroyed p then (Returned (), s)
          else
            (case connect_clears p of
               None \<Rightarrow> (Returned (), s\<lparr>peer := Some (p\<lparr>connected := True\<rparr>)\<rparr>)
             | Some transferTimeout \<Rightarrow>
                 startFileTransfer now
                   (logMessage ''Peer connection established!'' (Some ''success'')
                      (clearTimeout transferTimeout (s\<lparr>peer := Some (p\<lparr>connected := True\<rparr>)\<rparr>)))))"

section \<open>File selection\<close>

text \<open>
  \<open>handleFileSelect\<close> (app.js 147-179). \<open>formatFileSize\<close> is a helper that app.js does not
  define; it is the parameter \<open>fmt\<close>. \<open>reduce\<close> is a left fold.
\<close>

definition handleFileSelect :: "(nat \<Rightarrow> string) \<Rightarrow> state \<Rightarrow> unit outcome \<times> state" where
  "handleFileSelect fmt s =
     (case fileSelector (elements s) of
        None \<Rightarrow> (Threw ''TypeError: Cannot read properties of null'', s)
      | Some files \<Rightarrow>
          (case fileList (elements s) of
             None \<Rightarrow> (Threw null_element, s)
           | Some old \<Rightarrow>
               (let s1 = s\<lparr>elements := (elements s)\<lparr>fileList := Some []\<rparr>, fileQueue := []\<rparr>
                in case files of
                     None \<Rightarrow> (Returned (), s1)
                   | Some fs \<Rightarrow>
                       if length fs = 0 then (Returned (), s1)
                       else
                         (let s2 = s1\<lparr>fileQueue := fs\<rparr>;
                              s3 = s2\<lparr>totalSize :=
                                        foldl (\<lambda>sum f. sum + file_size f) 0 (fileQueue s2)\<rparr>;
                              s4 = s3\<lparr>elements := (elements s3)
                                     \<lparr>fileList := Some (map (\<lambda>(index, f).
                                                          (name f, fmt (file_size f), index))
                                                        (enumerate 0 (fileQueue s3)))\<rparr>\<rparr>
                          in and_then (set_sendBtn False s4)
                               (\<lambda>s5. (Returned (),
                                  logMessage (''Selected '' @ show_nat (length fs) @ '' files (''
                                                @ fmt (totalSize s5) @ '')'') None s5))))))"

text \<open>The click listener of a remove button (app.js 170-174): \<open>splice(index, 1)\<close>, then refresh.\<close>

definition remove_file_clicked :: "(nat \<Rightarrow> string) \<Rightarrow> nat \<Rightarrow> state \<Rightarrow> unit outcome \<times> state" where
  "remove_file_clicked fmt index s =
     handleFileSelect fmt
       (s\<lparr>fileQueue := take index (fileQueue s) @ drop (Suc index) (fileQueue s)\<rparr>)"

section \<open>The signaling connection of the client\<close>

text \<open>
  \<open>initializeSocketConnection\<close> (app.js 80-130): the socket is made with options read from
  \<open>config\<close>; the listeners it registers are the functions below.
\<close>

definition initializeSocketConnection :: "state \<Rightarrow> unit outcome \<times> state" where
  "initializeSocketConnection s =
     (Returned (),
      s\<lparr>socket := Some
          \<lparr>sock_id = '''', sock_connected = False,
           sock_options =
             \<lparr>reconnection = True,
              reconnectionAttempts = get_prop config ''maxConnectionAttempts'',
              reconnectionDelay = get_prop config ''RECONNECT_DELAY'',
              transports = [''websocket'']\<rparr>,
           emitted = []\<rparr>\<rparr>)"

text \<open>
  \<open>startPeerDiscovery\<close> (app.js 133-144): a 5000 ms interval and an initial \<open>discover\<close>.
  \<open>discovery_interval\<close> is the interval's callback, given its own identifier.
\<close>

definition socket_emit :: "string client_event \<Rightarrow> state \<Rightarrow> unit outcome \<times> state" where
  "socket_emit ev s =
     (case socket s of
        None \<Rightarrow> (Threw ''TypeError: Cannot read properties of null'', s)
      | Some k \<Rightarrow> (Returned (), s\<lparr>socket := Some (k\<lparr>emitted := emitted k @ [ev]\<rparr>)\<rparr>))"

definition startPeerDiscovery :: "state \<Rightarrow> unit outcome \<times> state" where
  "startPeerDiscovery s = socket_emit CDiscover (snd (setInterval DiscoveryInterval (Num 5000) s))"

definition discovery_interval :: "nat \<Rightarrow> state \<Rightarrow> unit outcome \<times> state" where
  "discovery_interval discoveryInterval s =
     (case socket s of
        None \<Rightarrow> (Threw ''TypeError: Cannot read properties of null'', s)
      | Some k \<Rightarrow>
          if sock_connected k then socket_emit CDiscover s
          else (Returned (), clearTimeout discoveryInterval s))"

text \<open>
  The listeners for \<open>connect\<close>, \<open>disconnect\<close> and \<open>connect_error\<close> (app.js 88-108). Before
  \<open>connect\<close> the library has set the socket's \<open>id\<close> and \<open>connected\<close>; before \<open>disconnect\<close> it
  has cleared \<open>connected\<close>.
\<close>

definition socket_connect :: "socket_id \<Rightarrow> state \<Rightarrow> unit outcome \<times> state" where
  "socket_connect sid s =
     (case socket s of
        None \<Rightarrow> (Returned (), s)
      | Some k \<Rightarrow>
          startPeerDiscovery
            (logMessage ''Connected to signaling server'' None
               (updateConnectionStatus True
                  (s\<lparr>socket := Some (k\<lparr>sock_id := sid, sock_connected := True\<rparr>),
                     localPeerId := sid, connectionAttempts := 0\<rparr>))))"

definition socket_disconnect :: "string \<Rightarrow> state \<Rightarrow> unit outcome \<times> state" where
  "socket_disconnect reason s =
     (case socket s of
        None \<Rightarrow> (Returned (), s)
      | Some k \<Rightarrow>
          (let s1 = logMessage (''Disconnected: '' @ reason) (Some ''warning'')
                      (updateConnectionStatus False
                         (s\<lparr>socket := Some (k\<lparr>sock_connected := False\<rparr>)\<rparr>))
           in if reason = ''io server disconnect'' then
                (Returned (),
                 snd (setTimeout InitializeSocketConnection (get_prop config ''RECONNECT_DELAY'') s1))
              else (Returned (), s1)))"

definition socket_connect_error :: "string \<Rightarrow> state \<Rightarrow> unit outcome \<times> state" where
  "socket_connect_error msg s =
     (let s1 = s\<lparr>connectionAttempts := connectionAttempts s + 1\<rparr>
      in (Returned (),
          logMessage (''Connection error (attempt '' @ show_nat (connectionAttempts s1) @ ''/''
                        @ template (get_prop config ''maxConnectionAttempts'') @ ''): '' @ msg)
            (Some ''error'') s1))"

text \<open>
  How socket.io-client reads the options: automatic reconnection is on when \<open>reconnection\<close>
  is set, and the number of attempts is bounded by \<open>reconnectionAttempts\<close> when that is a
  number other than 0; the library takes \<open>reconnectionAttempts || Infinity\<close>, so that an
  undefined \<open>reconnectionAttempts\<close>, like 0, is no bound.
  \<open>retries_after opts n\<close>: after \<open>n\<close> failed attempts in a row the library tries again.
\<close>

definition retries_after :: "socket_options \<Rightarrow> nat \<Rightarrow> bool" where
  "retries_after opts n =
     (reconnection opts \<and>
      (case reconnectionAttempts opts of
         Num limit \<Rightarrow> limit = 0 \<or> n < limit
       | other \<Rightarrow> True))"

section \<open>The events of a client\<close>

text \<open>
  What can happen to a loaded page. The user picks files in the file selector (the browser
  sets its \<open>files\<close>, then \<open>handleFileSelect\<close> runs), clicks a remove button, selects a peer,
  or clicks send (\<open>initiateTransfer\<close>); the data channel opens; a timer fires; the socket
  connects, disconnects or fails to connect; the page unloads (app.js 290-293). An exception
  that leaves a listener is reported by the browser and the state stays as the listener left
  it.
\<close>

datatype client_input =
    FilesPicked "File list option"
  | RemoveClicked nat
  | PeerSelected socket_id
  | SendClicked "thrown_value option list" "thrown_value option"
  | PeerConnects nat
  | TimerFires nat
  | SocketConnects socket_id
  | SocketDisconnects string
  | SocketConnectError string
  | BeforeUnload

definition run_timer :: "nat \<Rightarrow> state \<Rightarrow> unit outcome \<times> state" where
  "run_timer tid s =
     (case find (\<lambda>t. timer_id t = tid) (timers s) of
        None \<Rightarrow> (Returned (), s)
      | Some t \<Rightarrow>
          (let s1 = (if timer_repeats t then s else clearTimeout tid s)
           in case timer_callback t of
                TransferTimeout \<Rightarrow> transfer_timeout s1
              | InitializeSocketConnection \<Rightarrow> initializeSocketConnection s1
              | DiscoveryInterval \<Rightarrow> discovery_interval tid s1))"

fun client_handler :: "(nat \<Rightarrow> string) \<Rightarrow> client_input \<Rightarrow> state \<Rightarrow> unit outcome \<times> state" where
  "client_handler fmt (FilesPicked fs) s =
     handleFileSelect fmt
       (s\<lparr>elements := (elements s)
            \<lparr>fileSelector := map_option (\<lambda>old. fs) (fileSelector (elements s))\<rparr>\<rparr>)"
| "client_handler fmt (RemoveClicked index) s = remove_file_clicked fmt index s"
| "client_handler fmt (PeerSelected sid) s = (Returned (), s\<lparr>selectedPeerId := sid\<rparr>)"
| "client_handler fmt (SendClicked faults dthrows) s = initiateTransfer faults dthrows s"
| "client_handler fmt (PeerConnects now) s = peer_connects now s"
| "client_handler fmt (TimerFires tid) s = run_timer tid s"
| "client_handler fmt (SocketConnects sid) s = socket_connect sid s"
| "client_handler fmt (SocketDisconnects reason) s = socket_disconnect reason s"
| "client_handler fmt (SocketConnectError msg) s = socket_connect_error msg s"
| "client_handler fmt BeforeUnload s =
     and_then (cleanup s)
       (\<lambda>s1. (Returned (),
               case socket s1 of
                 None \<Rightarrow> s1
               | Some k \<Rightarrow> s1\<lparr>socket := Some (k\<lparr>sock_connected := False\<rparr>)\<rparr>))"

definition client_step :: "(nat \<Rightarrow> string) \<Rightarrow> state \<Rightarrow> client_input \<Rightarrow> state" where
  "client_step fmt s i = snd (client_handler fmt i s)"

definition client_run :: "(nat \<Rightarrow> string) \<Rightarrow> state \<Rightarrow> client_input list \<Rightarrow> state" where
  "client_run fmt s inputs = foldl (client_step fmt) s inputs"

section \<open>The network information endpoint\<close>

text \<open>
  \<open>GET /network\<close> (i.js 20-25). \<open>address\<close> is the outcome of \<open>ip.address()\<close> and \<open>env\<close> is
  \<open>process.env\<close>. The handler has no \<open>try\<close>: an exception of \<open>ip.address()\<close> leaves it, and
  Express answers with an error response. \<open>res.json\<close> serialises the object, and
  serialisation leaves out a property whose value is \<open>undefined\<close>.
\<close>

datatype http_response = Json "(string \<times> jsval) list" | ServerError string

definition json_object :: "(string \<times> jsval) list \<Rightarrow> (string \<times> jsval) list" where
  "json_object obj = filter (\<lambda>kv. snd kv \<noteq> Undefined) obj"

definition network_handler :: "jsval outcome \<Rightarrow> (string \<times> jsval) list \<Rightarrow> http_response" where
  "network_handler address env =
     (case address of
        Threw msg \<Rightarrow> ServerError msg
      | Returned localIp \<Rightarrow>
          Json (json_object
            [(''localIp'', localIp),
             (''publicUrl'',
              Str (''https://'' @ template (get_prop env ''CODESPACE_NAME'') @ ''-3000.''
                     @ template (get_prop env ''GITHUB_CODESPACES_PORT_FORWARDING_DOMAIN'')))]))"

text \<open>
  \<open>fetchNetworkInfo\<close> (app.js 68-77). The result of \<open>fetch\<close> is a rejection or a response
  with its \<open>ok\<close> flag and the outcome of \<open>response.json()\<close>. Every failure is caught, a
  warning is written to the console and \<open>{localIp: null}\<close> is returned.
\<close>

datatype fetch_result =
    FetchRejected string
  | Response bool "(string \<times> jsval) list outcome"

definition fetchNetworkInfo :: "fetch_result \<Rightarrow> state \<Rightarrow> (string \<times> jsval) list \<times> state" where
  "fetchNetworkInfo res s =
     (case (case res of
              FetchRejected msg \<Rightarrow> Threw msg
            | Response ok body \<Rightarrow>
                if \<not> ok then Threw ''Network response was not ok'' else body) of
        Returned info \<Rightarrow> (info, s)
      | Threw msg \<Rightarrow>
          ([(''localIp'', Null)],
           s\<lparr>console := console s @ [''Failed to fetch network info: '' @ msg]\<rparr>))"

text \<open>What \<open>fetch\<close> makes of the endpoint's response: an error response is not \<open>ok\<close>.\<close>

definition fetch_of :: "http_response \<Rightarrow> fetch_result" where
  "fetch_of r =
     (case r of
        Json body \<Rightarrow> Response True (Returned body)
      | ServerError msg \<Rightarrow> Response False (Threw ''Unexpected token in JSON''))"

text \<open>The response is a success whose \<open>localIp\<close> is \<open>null\<close>.\<close>

definition succeeds_with_null_ip :: "http_response \<Rightarrow> bool" where
  "succeeds_with_null_ip r =
     (case r of Json body \<Rightarrow> map_of body ''localIp'' = Some Null | ServerError msg \<Rightarrow> False)"

section \<open>The receive side of a transfer session\<close>

text \<open>
  Modelled from the spec: the receive engine; app.js has no listener for the data that
  arrives on the channel. Section 3: the session holds, on the receive side, a mapping from
  file index to an ordered sequence of received byte chunks plus a running received-byte
  counter. Section 4.3, receiver algorithm:
  \<^enum> the first inbound message must decode as metadata and establishes the expected file list
    and total size; a chunk before metadata is a protocol violation and the session is
    dropped;
  \<^enum> each later chunk is appended to the buffer of the active file index, and the per-file
    and the session received-byte counters grow by its length;
  \<^enum> when a file's counter equals its advertised size, its chunks are concatenated into the
    final artifact, a file-complete event is emitted, the buffer is released and the active
    index advances; a counter beyond the advertised size is a protocol violation;
  \<^enum> when the session counter equals the advertised total size, the transfer is complete.

  Edge case of section 4.3: a file of size 0 is complete upon metadata receipt, with no
  chunk expected, so the active index passes over files of size 0. The spec does not say
  what a second metadata message does; here it changes nothing.
\<close>

record receiver =
  r_files :: "descriptor list option"
  r_totalSize :: nat
  r_active :: nat
  r_buffers :: "nat \<rightharpoonup> byte list list"
  r_fileReceived :: nat
  r_receivedSize :: nat
  r_completed :: "(nat \<times> byte list) list"
  r_violation :: bool

definition receiver_init :: receiver where
  "receiver_init =
     \<lparr>r_files = None, r_totalSize = 0, r_active = 0, r_buffers = Map.empty,
      r_fileReceived = 0, r_receivedSize = 0, r_completed = [], r_violation = False\<rparr>"

text \<open>The first index from \<open>k\<close> on whose file is not empty; the number of files if there is none.\<close>

definition next_nonempty :: "descriptor list \<Rightarrow> nat \<Rightarrow> nat" where
  "next_nonempty files k = k + length (takeWhile (\<lambda>d. d_size d = 0) (drop k files))"

definition buffer_of :: "receiver \<Rightarrow> nat \<Rightarrow> byte list list" where
  "buffer_of r i = (case r_buffers r i of None \<Rightarrow> [] | Some chunks \<Rightarrow> chunks)"

fun receive :: "receiver \<Rightarrow> message \<Rightarrow> receiver" where
  "receive r (Metadata files total_size timestamp) =
     (if r_violation r then r
      else case r_files r of
             Some known \<Rightarrow> r
           | None \<Rightarrow>
               r\<lparr>r_files := Some files, r_totalSize := total_size,
                 r_active := next_nonempty files 0,
                 r_completed := r_completed r @
                    map (\<lambda>i. (i, [])) (filter (\<lambda>i. d_size (files ! i) = 0) [0..<length files])\<rparr>)"
| "receive r (Chunk bytes) =
     (if r_violation r then r
      else case r_files r of
             None \<Rightarrow> r\<lparr>r_violation := True\<rparr>
           | Some files \<Rightarrow>
               if length files \<le> r_active r then r\<lparr>r_violation := True\<rparr>
               else
                 (let i = r_active r;
                      buffer = buffer_of r i @ [bytes];
                      got = r_fileReceived r + length bytes;
                      r1 = r\<lparr>r_buffers := (r_buffers r)(i \<mapsto> buffer), r_fileReceived := got,
                             r_receivedSize := r_receivedSize r + length bytes\<rparr>
                  in if got = d_size (files ! i) then
                       r1\<lparr>r_completed := r_completed r1 @ [(i, concat buffer)],
                          r_buffers := (r_buffers r1)(i := None),
                          r_active := next_nonempty files (Suc i),
                          r_fileReceived := 0\<rparr>
                     else if d_size (files ! i) < got then r1\<lparr>r_violation := True\<rparr>
                     else r1))"

definition receive_all :: "receiver \<Rightarrow> message list \<Rightarrow> receiver" where
  "receive_all r msgs = foldl receive r msgs"

definition transfer_complete :: "receiver \<Rightarrow> bool" where
  "transfer_complete r =
     (r_files r \<noteq> None \<and> \<not> r_violation r \<and> r_receivedSize r = r_totalSize r)"

section \<open>Notions used by the properties\<close>

text \<open>What the peer of the state has accepted for sending.\<close>

definition sent :: "state \<Rightarrow> message list" where
  "sent s = (case peer s of None \<Rightarrow> [] | Some p \<Rightarrow> channel p)"

text \<open>
  The channel is established and no coming \<open>send\<close> fails: the peer is connected, not
  destroyed, and its environment schedules no failing \<open>send\<close>.
\<close>

definition channel_open :: "state \<Rightarrow> bool" where
  "channel_open s =
     (case peer s of
        None \<Rightarrow> False
      | Some p \<Rightarrow> connected p \<and> \<not> destroyed p \<and> list_all (\<lambda>f. f = None) (send_faults p))"

text \<open>The chunk sequence of a byte sequence: slices of \<open>CHUNK_SIZE\<close> bytes, the last one shorter.\<close>

function chunks :: "byte list \<Rightarrow> byte list list" where
  "chunks bytes =
     (if bytes = [] then [] else take CHUNK_SIZE bytes # chunks (drop CHUNK_SIZE bytes))"
  by pat_completeness auto
termination
  by (relation "measure length") (auto simp: CHUNK_SIZE_def)

declare chunks.simps [simp del]

text \<open>The chunk that the sender slices at its cursor.\<close>

definition next_chunk :: "state \<Rightarrow> byte list" where
  "next_chunk s =
     take CHUNK_SIZE (drop (currentOffset s) (content (fileQueue s ! currentFileIndex s)))"

text \<open>The chunks still to be sent when the cursor is at file \<open>idx\<close>, offset \<open>off\<close>.\<close>

definition pending :: "File list \<Rightarrow> nat \<Rightarrow> nat \<Rightarrow> byte list list" where
  "pending q idx off =
     (if idx < length q then
        chunks (drop off (content (q ! idx))) @ concat (map (\<lambda>f. chunks (content f)) (drop (Suc idx) q))
      else [])"

text \<open>No peer object that the state has let go of is alive.\<close>

definition released_destroyed :: "state \<Rightarrow> bool" where
  "released_destroyed s = list_all destroyed (released s)"

text \<open>The peer objects of a client that are not destroyed.\<close>

definition live_peers :: "state \<Rightarrow> peer list" where
  "live_peers s =
     filter (\<lambda>p. \<not> destroyed p) (released s @ (case peer s of None \<Rightarrow> [] | Some p \<Rightarrow> [p]))"

text \<open>
  A non-empty queue comes with its total size, and with the two page elements without
  which \<open>handleFileSelect\<close> cannot fill a queue.
\<close>

definition selection_consistent :: "state \<Rightarrow> bool" where
  "selection_consistent s =
     (fileQueue s = [] \<or>
      (totalSize s = sum_list (map file_size (fileQueue s))
       \<and> fileSelector (elements s) \<noteq> None \<and> fileList (elements s) \<noteq> None))"

text \<open>A step that leaves the file selection alone and lets go of destroyed peers only.\<close>

definition preserved :: "state \<Rightarrow> state \<Rightarrow> bool" where
  "preserved s s' =
     (fileQueue s' = fileQueue s \<and> totalSize s' = totalSize s
      \<and> fileSelector (elements s') = fileSelector (elements s)
      \<and> fileList (elements s') = fileList (elements s)
      \<and> (released_destroyed s \<longrightarrow> released_destroyed s'))"

text \<open>The next \<open>send\<close> of the state's peer is accepted.\<close>

definition next_send_accepted :: "state \<Rightarrow> bool" where
  "next_send_accepted s =
     (case peer s of
        None \<Rightarrow> False
      | Some p \<Rightarrow> connected p \<and> \<not> destroyed p
                  \<and> (case send_faults p of [] \<Rightarrow> True | f # rest \<Rightarrow> f = None))"

fun is_chunk :: "message \<Rightarrow> bool" where
  "is_chunk (Chunk bytes) = True"
| "is_chunk (Metadata files total_size timestamp) = False"

text \<open>
  The receiver is in the middle of file \<open>i\<close>, having received the bytes \<open>pre\<close> of it; and
  the receiver is between files, the next file to come being the first non-empty one from
  \<open>k\<close> on.
\<close>

definition receiving :: "descriptor list \<Rightarrow> nat \<Rightarrow> byte list \<Rightarrow> receiver \<Rightarrow> bool" where
  "receiving files i pre r =
     (r_files r = Some files \<and> \<not> r_violation r \<and> r_active r = i \<and> i < length files
      \<and> r_fileReceived r = length pre \<and> concat (buffer_of r i) = pre
      \<and> dom (r_buffers r) \<subseteq> {i})"

definition between_files :: "descriptor list \<Rightarrow> nat \<Rightarrow> receiver \<Rightarrow> bool" where
  "between_files files k r =
     (r_files r = Some files \<and> \<not> r_violation r \<and> r_active r = next_nonempty files k
      \<and> r_fileReceived r = 0 \<and> r_buffers r = Map.empty)"

text \<open>The messages of the session that takes a sender from \<open>s\<close> to \<open>s'\<close>.\<close>

definition session_messages :: "state \<Rightarrow> state \<Rightarrow> message list" where
  "session_messages s s' = drop (length (sent s)) (sent s')"

section \<open>Example values\<close>

text \<open>A page that has every cached element, a three-byte file and an empty file.\<close>

definition example_page :: elements where
  "example_page =
     \<lparr>discoverBtn = Some ''Discover Peers'', fileSelector = Some (Some []), fileList = Some [],
      sendBtn = Some True, progressBar = Some 0, progressText = Some ''0%'',
      speedText = Some ''Speed: 0 KB/s''\<rparr>"

definition example_file :: File where
  "example_file = \<lparr>name = ''a.txt'', type = ''text/plain'', lastModified = 0, content = [1, 2, 3]\<rparr>"

definition empty_file :: File where
  "empty_file = \<lparr>name = ''empty'', type = '''', lastModified = 0, content = []\<rparr>"

text \<open>
  A client on that page after the user picked the two files, selected the peer \<open>peerB\<close> and
  clicked send: a peer object has been made and has not connected yet.
\<close>

definition example_session :: state where
  "example_session =
     client_run show_nat (initial_state example_page)
       [FilesPicked (Some [example_file, empty_file]), PeerSelected ''peerB'',
        SendClicked [] None]"

text \<open>The example session once the data channel of its peer is open.\<close>

definition example_connected :: state where
  "example_connected =
     example_session
       \<lparr>peer := Some ((SimplePeer [] None)\<lparr>connect_clears := Some 0, connected := True\<rparr>)\<rparr>"

section \<open>Properties of the relay\<close>

lemma filter_eq_single:
  "distinct xs \<Longrightarrow> t \<in> set xs \<Longrightarrow>
     filter (\<lambda>x. x = t \<and> x \<noteq> s) xs = (if t = s then [] else [t])"
  by (induction xs) (auto simp: filter_empty_conv)

lemma discover_has_no_listener: "relay_step r (FromClient sid CDiscover) = (r, [])"
  by simp

text \<open>
  C3. An \<open>offer(payload, targetId)\<close> received from the live connection \<open>sourceId\<close> makes the
  relay emit exactly one event, addressed to \<open>targetId\<close>: \<open>offer(payload, sourceId)\<close>, with the
  payload as received and the connection's own identifier as the sender. The relay state is
  unchanged; no connection other than \<open>targetId\<close> is delivered anything, and a live
  \<open>targetId\<close> other than the sender is delivered exactly that event.
\<close>

theorem C3_offer_forwarded_with_source:
  assumes "sourceId \<in> set (sockets r)"
  shows "relay_step r (FromClient sourceId (COffer payload targetId)) =
           (r, [EmitTo targetId sourceId (SOffer payload sourceId)])
       \<and> (\<forall>d \<in> set (deliveries r (FromClient sourceId (COffer payload targetId))).
             d = (targetId, SOffer payload sourceId))
       \<and> (distinct (sockets r) \<and> targetId \<in> set (sockets r) \<and> targetId \<noteq> sourceId \<longrightarrow>
             deliveries r (FromClient sourceId (COffer payload targetId)) =
               [(targetId, SOffer payload sourceId)])"
proof (intro conjI impI)
  show "relay_step r (FromClient sourceId (COffer payload targetId)) =
           (r, [EmitTo targetId sourceId (SOffer payload sourceId)])"
    using assms by simp
  show "\<forall>d \<in> set (deliveries r (FromClient sourceId (COffer payload targetId))).
           d = (targetId, SOffer payload sourceId)"
    using assms by (auto simp: deliveries_def)
  show "deliveries r (FromClient sourceId (COffer payload targetId)) =
             [(targetId, SOffer payload sourceId)]"
    if "distinct (sockets r) \<and> targetId \<in> set (sockets r) \<and> targetId \<noteq> sourceId"
    using assms that by (simp add: deliveries_def filter_eq_single)
qed

theorem C3_offer_forwarded_witness:
  "''peerA'' \<in> set (sockets \<lparr>sockets = [''peerA'', ''peerB''], intervals = [''peerA'', ''peerB'']\<rparr>)
   \<and> relay_step \<lparr>sockets = [''peerA'', ''peerB''], intervals = [''peerA'', ''peerB'']\<rparr>
       (FromClient ''peerA'' (COffer ''sdp'' ''peerB'')) =
     (\<lparr>sockets = [''peerA'', ''peerB''], intervals = [''peerA'', ''peerB'']\<rparr>,
      [EmitTo ''peerB'' ''peerA'' (SOffer ''sdp'' ''peerA'')])
   \<and> deliveries \<lparr>sockets = [''peerA'', ''peerB''], intervals = [''peerA'', ''peerB'']\<rparr>
       (FromClient ''peerA'' (COffer ''sdp'' ''peerB'')) = [(''peerB'', SOffer ''sdp'' ''peerA'')]"
proof -
  let ?r = "\<lparr>sockets = [''peerA'', ''peerB''], intervals = [''peerA'', ''peerB'']\<rparr>"
  have a: "''peerA'' \<in> set (sockets ?r)" by simp
  have b: "distinct (sockets ?r) \<and> ''peerB'' \<in> set (sockets ?r) \<and> ''peerB'' \<noteq> ''peerA''"
    by simp
  from C3_offer_forwarded_with_source [OF a, of "''sdp''" "''peerB''"] a b
  show ?thesis by blast
qed

text \<open>
  C5. The relay registers no listener for \<open>discover\<close>: with \<open>peerA\<close> and \<open>peerB\<close> connected,
  a \<open>discover\<close> from \<open>peerA\<close> is answered by nothing, while the firing of \<open>peerA\<close>'s interval
  emits the peer set \<open>[peerB]\<close> to it. The client (app.js 133-144) emits \<open>discover\<close> on
  connecting and every 5000 ms.
\<close>

theorem C5_discover_is_not_answered:
  "relay_step \<lparr>sockets = [''peerA'', ''peerB''], intervals = [''peerA'', ''peerB'']\<rparr>
       (FromClient ''peerA'' (CDiscover :: string client_event)) =
     (\<lparr>sockets = [''peerA'', ''peerB''], intervals = [''peerA'', ''peerB'']\<rparr>, [])
   \<and> deliveries \<lparr>sockets = [''peerA'', ''peerB''], intervals = [''peerA'', ''peerB'']\<rparr>
       (FromClient ''peerA'' (CDiscover :: string client_event)) = []
   \<and> deliveries \<lparr>sockets = [''peerA'', ''peerB''], intervals = [''peerA'', ''peerB'']\<rparr>
       (IntervalFires ''peerA'' :: string relay_input) = [(''peerA'', SPeers [''peerB''])]"
  by (simp add: deliveries_def broadcastPeers_def)

section \<open>Properties of sending\<close>

lemma sendData_frame:
  "fileQueue (snd (sendData data s)) = fileQueue s"
  "currentFileIndex (snd (sendData data s)) = currentFileIndex s"
  "currentOffset (snd (sendData data s)) = currentOffset s"
  "totalSize (snd (sendData data s)) = totalSize s"
  "released (snd (sendData data s)) = released s"
  "elements (snd (sendData data s)) = elements s"
  by (auto simp: sendData_def logMessage_def split: option.splits prod.splits outcome.splits)

lemma peer_send_channel:
  "channel (snd (peer_send data p)) =
     (if fst (peer_send data p) = None then channel p @ [data] else channel p)"
  by (simp add: peer_send_def split: list.split option.split)

lemma peer_send_open:
  "connected p \<Longrightarrow> \<not> destroyed p \<Longrightarrow> list_all (\<lambda>f. f = None) (send_faults p) \<Longrightarrow>
     fst (peer_send data p) = None
     \<and> connected (snd (peer_send data p)) \<and> \<not> destroyed (snd (peer_send data p))
     \<and> list_all (\<lambda>f. f = None) (send_faults (snd (peer_send data p)))"
  by (cases "send_faults p") (auto simp: peer_send_def)

text \<open>What \<open>sendData\<close> does, by the state of the peer and by what \<open>send\<close> throws.\<close>

lemma sendData_no_peer:
  "peer s = None \<Longrightarrow>
     sendData data s =
       (Returned False, logMessage ''Cannot send data - peer not connected'' (Some ''error'') s)"
  by (simp add: sendData_def)

lemma sendData_not_connected:
  "peer s = Some p \<Longrightarrow> \<not> connected p \<Longrightarrow>
     sendData data s =
       (Returned False, logMessage ''Cannot send data - peer not connected'' (Some ''error'') s)"
  by (simp add: sendData_def)

lemma sendData_send_returned:
  "peer s = Some p \<Longrightarrow> connected p \<Longrightarrow> fst (peer_send data p) = None \<Longrightarrow>
     sendData data s = (Returned True, s\<lparr>peer := Some (snd (peer_send data p))\<rparr>)"
  by (cases "peer_send data p") (simp add: sendData_def)

lemma sendData_send_threw:
  "peer s = Some p \<Longrightarrow> connected p \<Longrightarrow> fst (peer_send data p) = Some error \<Longrightarrow>
   error_message error = Returned message \<Longrightarrow>
     sendData data s =
       (Returned False,
        logMessage (''Failed to send data: '' @ template message) (Some ''error'')
          (s\<lparr>peer := Some (snd (peer_send data p))\<rparr>))"
  by (cases "peer_send data p") (simp add: sendData_def)

lemma sendData_catch_threw:
  "peer s = Some p \<Longrightarrow> connected p \<Longrightarrow> fst (peer_send data p) = Some error \<Longrightarrow>
   error_message error = Threw type_error \<Longrightarrow>
     sendData data s = (Threw type_error, s\<lparr>peer := Some (snd (peer_send data p))\<rparr>)"
  by (cases "peer_send data p") (simp add: sendData_def)

lemma sendData_sent:
  "sent (snd (sendData data s)) =
     (if fst (sendData data s) = Returned True then sent s @ [data] else sent s)"
proof (cases "peer s")
  case None
  then show ?thesis by (simp add: sendData_no_peer sent_def logMessage_def)
next
  case (Some p)
  show ?thesis
  proof (cases "connected p")
    case False
    with Some show ?thesis by (simp add: sendData_not_connected sent_def logMessage_def)
  next
    case True
    show ?thesis
    proof (cases "fst (peer_send data p)")
      case None
      with Some True peer_send_channel [of data p] show ?thesis
        by (simp add: sendData_send_returned sent_def)
    next
      case (Some error)
      with \<open>peer s = Some p\<close> True peer_send_channel [of data p] show ?thesis
        by (cases "error_message error")
           (simp_all add: sendData_send_threw sendData_catch_threw sent_def logMessage_def)
    qed
  qed
qed

lemma sendData_open:
  assumes "channel_open s"
  shows "fst (sendData data s) = Returned True \<and> channel_open (snd (sendData data s))"
proof -
  from assms obtain p where p: "peer s = Some p" "connected p" "\<not> destroyed p"
      "list_all (\<lambda>f. f = None) (send_faults p)"
    by (auto simp: channel_open_def split: option.splits)
  from peer_send_open [OF p(2,3,4), of data]
  have "fst (peer_send data p) = None" "connected (snd (peer_send data p))"
    "\<not> destroyed (snd (peer_send data p))"
    "list_all (\<lambda>f. f = None) (send_faults (snd (peer_send data p)))"
    by simp_all
  with p show ?thesis by (simp add: sendData_send_returned channel_open_def)
qed

lemma sendNextFile_done:
  "length (fileQueue s) \<le> currentFileIndex s \<Longrightarrow> sendNextFile s = (Returned (), s)"
  by (simp add: sendNextFile.simps [of s])

lemma sendNextFile_advance:
  "currentFileIndex s < length (fileQueue s) \<Longrightarrow>
   file_size (fileQueue s ! currentFileIndex s) \<le> currentOffset s \<Longrightarrow>
   sendNextFile s =
     sendNextFile (s\<lparr>currentFileIndex := Suc (currentFileIndex s), currentOffset := 0\<rparr>)"
  by (simp add: sendNextFile.simps [of s])

lemma sendNextFile_chunk_sent:
  "currentFileIndex s < length (fileQueue s) \<Longrightarrow>
   currentOffset s < file_size (fileQueue s ! currentFileIndex s) \<Longrightarrow>
   fst (sendData (Chunk (next_chunk s)) s) = Returned True \<Longrightarrow>
   sendNextFile s =
     sendNextFile ((snd (sendData (Chunk (next_chunk s)) s))
                     \<lparr>currentOffset := currentOffset s + length (next_chunk s)\<rparr>)"
  by (simp add: sendNextFile.simps [of s] next_chunk_def Let_def)

lemma sendNextFile_chunk_failed:
  "currentFileIndex s < length (fileQueue s) \<Longrightarrow>
   currentOffset s < file_size (fileQueue s ! currentFileIndex s) \<Longrightarrow>
   fst (sendData (Chunk (next_chunk s)) s) \<noteq> Returned True \<Longrightarrow>
   sendNextFile s =
     (case fst (sendData (Chunk (next_chunk s)) s) of
        Threw msg \<Rightarrow> Threw msg
      | Returned b \<Rightarrow> Returned (),
      snd (sendData (Chunk (next_chunk s)) s))"
  by (simp add: sendNextFile.simps [of s] next_chunk_def Let_def)

text \<open>
  An induction rule that follows the four cases of the sender's loop.
\<close>

lemma sendNextFile_cases_induct [case_names all_sent advance chunk_sent chunk_failed]:
  assumes "\<And>s. length (fileQueue s) \<le> currentFileIndex s \<Longrightarrow> P s"
    and "\<And>s. currentFileIndex s < length (fileQueue s) \<Longrightarrow>
              file_size (fileQueue s ! currentFileIndex s) \<le> currentOffset s \<Longrightarrow>
              P (s\<lparr>currentFileIndex := Suc (currentFileIndex s), currentOffset := 0\<rparr>) \<Longrightarrow> P s"
    and "\<And>s. currentFileIndex s < length (fileQueue s) \<Longrightarrow>
              currentOffset s < file_size (fileQueue s ! currentFileIndex s) \<Longrightarrow>
              fst (sendData (Chunk (next_chunk s)) s) = Returned True \<Longrightarrow>
              P ((snd (sendData (Chunk (next_chunk s)) s))
                   \<lparr>currentOffset := currentOffset s + length (next_chunk s)\<rparr>) \<Longrightarrow> P s"
    and "\<And>s. currentFileIndex s < length (fileQueue s) \<Longrightarrow>
              currentOffset s < file_size (fileQueue s ! currentFileIndex s) \<Longrightarrow>
              fst (sendData (Chunk (next_chunk s)) s) \<noteq> Returned True \<Longrightarrow> P s"
  shows "P s"
proof (induction s rule: sendNextFile.induct)
  case (1 s)
  show ?case
  proof (cases "length (fileQueue s) \<le> currentFileIndex s")
    case True
    then show ?thesis by (rule assms(1))
  next
    case more: False
    show ?thesis
    proof (cases "file_size (fileQueue s ! currentFileIndex s) \<le> currentOffset s")
      case True
      with more "1.IH"(1) assms(2) [of s] show ?thesis by simp
    next
      case False
      show ?thesis
      proof (cases "fst (sendData (Chunk (next_chunk s)) s) = Returned True")
        case True
        then have "P ((snd (sendData (Chunk (next_chunk s)) s))
                   \<lparr>currentOffset := currentOffset s + length (next_chunk s)\<rparr>)"
          using "1.IH"(2) [OF more False refl refl] by (simp add: next_chunk_def)
        with True more False assms(3) [of s] show ?thesis by simp
      next
        case False': False
        with more False assms(4) [of s] show ?thesis by simp
      qed
    qed
  qed
qed

lemma sendNextFile_frame:
  "fileQueue (snd (sendNextFile s)) = fileQueue s
   \<and> totalSize (snd (sendNextFile s)) = totalSize s
   \<and> released (snd (sendNextFile s)) = released s
   \<and> elements (snd (sendNextFile s)) = elements s"
proof (induction s rule: sendNextFile_cases_induct)
  case (all_sent s)
  then show ?case by (simp add: sendNextFile_done)
next
  case (advance s)
  then show ?case by (simp add: sendNextFile_advance)
next
  case (chunk_sent s)
  then show ?case by (simp add: sendNextFile_chunk_sent sendData_frame)
next
  case (chunk_failed s)
  then show ?case by (simp add: sendNextFile_chunk_failed sendData_frame)
qed

lemma sent_cursor [simp]:
  "sent (s\<lparr>currentOffset := off\<rparr>) = sent s"
  "sent (s\<lparr>currentFileIndex := idx\<rparr>) = sent s"
  "sent (s\<lparr>receivedSize := n\<rparr>) = sent s"
  by (simp_all add: sent_def)

lemma sendNextFile_sends_chunks:
  "\<exists>cs. sent (snd (sendNextFile s)) = sent s @ cs \<and> list_all is_chunk cs"
proof (induction s rule: sendNextFile_cases_induct)
  case (all_sent s)
  then show ?case by (simp add: sendNextFile_done)
next
  case (advance s)
  then show ?case by (simp add: sendNextFile_advance)
next
  case (chunk_sent s)
  then obtain cs where
    "sent (snd (sendNextFile s)) = sent s @ Chunk (next_chunk s) # cs" "list_all is_chunk cs"
    by (auto simp: sendNextFile_chunk_sent sendData_sent)
  then have "sent (snd (sendNextFile s)) = sent s @ (Chunk (next_chunk s) # cs)
             \<and> list_all is_chunk (Chunk (next_chunk s) # cs)" by simp
  then show ?case by blast
next
  case (chunk_failed s)
  then show ?case by (simp add: sendNextFile_chunk_failed sendData_sent)
qed

lemma chunks_Nil [simp]: "chunks [] = []"
  by (simp add: chunks.simps)

lemma chunks_nonempty:
  "bytes \<noteq> [] \<Longrightarrow> chunks bytes = take CHUNK_SIZE bytes # chunks (drop CHUNK_SIZE bytes)"
  by (subst chunks.simps) simp

lemma concat_chunks: "concat (chunks bytes) = bytes"
proof (induction bytes rule: chunks.induct)
  case (1 bytes)
  then show ?case by (cases "bytes = []") (simp_all add: chunks_nonempty)
qed

lemma CHUNK_SIZE_pos [simp]: "0 < CHUNK_SIZE"
  by (simp add: CHUNK_SIZE_def)

lemma chunks_bounded: "c \<in> set (chunks bytes) \<Longrightarrow> c \<noteq> [] \<and> length c \<le> CHUNK_SIZE"
proof (induction bytes rule: chunks.induct)
  case (1 bytes)
  show ?case
  proof (cases "bytes = []")
    case True
    with "1.prems" show ?thesis by simp
  next
    case False
    from "1.prems" False
    have "c = take CHUNK_SIZE bytes \<or> c \<in> set (chunks (drop CHUNK_SIZE bytes))"
      by (simp add: chunks_nonempty)
    then show ?thesis
    proof
      assume "c = take CHUNK_SIZE bytes"
      with False show ?thesis by (simp add: take_eq_Nil)
    next
      assume "c \<in> set (chunks (drop CHUNK_SIZE bytes))"
      with False "1.IH" show ?thesis by blast
    qed
  qed
qed

lemma pending_done: "length q \<le> idx \<Longrightarrow> pending q idx off = []"
  by (simp add: pending_def)

lemma pending_advance:
  assumes "idx < length q" "file_size (q ! idx) \<le> off"
  shows "pending q idx off = pending q (Suc idx) 0"
proof (cases "Suc idx < length q")
  case True
  then have "drop (Suc idx) q = q ! Suc idx # drop (Suc (Suc idx)) q"
    by (simp add: Cons_nth_drop_Suc)
  with assms True show ?thesis by (simp add: pending_def file_size_def)
next
  case False
  with assms show ?thesis by (simp add: pending_def file_size_def)
qed

lemma drop_after_chunk:
  "drop (off + min (length xs - off) n) xs = drop (n + off) xs"
proof (cases "off + n \<le> length xs")
  case True
  then have "min (length xs - off) n = n" by simp
  then show ?thesis by (simp add: add.commute)
next
  case False
  then have "length xs \<le> off + min (length xs - off) n" by arith
  with False show ?thesis by simp
qed

lemma pending_chunk:
  assumes "idx < length q" "off < file_size (q ! idx)"
  shows "pending q idx off =
           take CHUNK_SIZE (drop off (content (q ! idx)))
             # pending q idx (off + length (take CHUNK_SIZE (drop off (content (q ! idx)))))"
proof -
  from assms have "drop off (content (q ! idx)) \<noteq> []" by (simp add: file_size_def)
  from chunks_nonempty [OF this] assms show ?thesis
    by (simp add: pending_def drop_after_chunk)
qed

lemma channel_open_cursor [simp]:
  "channel_open (s\<lparr>currentOffset := off\<rparr>) = channel_open s"
  "channel_open (s\<lparr>currentFileIndex := idx\<rparr>) = channel_open s"
  "channel_open (s\<lparr>receivedSize := n\<rparr>) = channel_open s"
  by (simp_all add: channel_open_def)


lemma sendNextFile_open:
  "channel_open s \<Longrightarrow>
     fst (sendNextFile s) = Returned ()
     \<and> sent (snd (sendNextFile s)) =
       sent s @ map Chunk (pending (fileQueue s) (currentFileIndex s) (currentOffset s))
     \<and> channel_open (snd (sendNextFile s))"
proof (induction s rule: sendNextFile_cases_induct)
  case (all_sent s)
  then show ?case by (simp add: sendNextFile_done pending_done)
next
  case (advance s)
  then show ?case by (simp add: sendNextFile_advance pending_advance)
next
  case (chunk_sent s)
  from chunk_sent.prems have "channel_open (snd (sendData (Chunk (next_chunk s)) s))"
    by (simp add: sendData_open)
  with chunk_sent show ?case
    by (simp add: sendNextFile_chunk_sent sendData_sent sendData_frame
                  pending_chunk [of "currentFileIndex s" "fileQueue s" "currentOffset s"]
                  next_chunk_def)
next
  case (chunk_failed s)
  with sendData_open [of s "Chunk (next_chunk s)"] show ?case by simp
qed

section \<open>Properties of teardown\<close>

lemma cleanup_peer_result:
  "peer (cleanup_peer s) = None" "elements (cleanup_peer s) = elements s"
  by (auto simp: cleanup_peer_def split: option.splits prod.splits outcome.splits)

lemma cleanup_peer_without_peer: "peer s = None \<Longrightarrow> cleanup_peer s = s"
  by (simp add: cleanup_peer_def)

lemma cleanup_peer_releases:
  "peer s = Some p \<Longrightarrow> released (cleanup_peer s) = released s @ [snd (peer_destroy p)]"
  by (auto simp: cleanup_peer_def split: option.splits prod.splits outcome.splits)

lemmas page_setters =
  reset_page_def and_then_def set_discoverBtn_def set_progressBar_def set_progressText_def
  set_speedText_def

lemma reset_page_twice: "reset_page (snd (reset_page t)) = reset_page t"
proof (cases "discoverBtn (elements t)")
  case None
  then show ?thesis by (simp add: page_setters)
next
  case d: (Some d)
  show ?thesis
  proof (cases "progressBar (elements t)")
    case None
    with d show ?thesis by (simp add: page_setters)
  next
    case b: (Some b)
    show ?thesis
    proof (cases "progressText (elements t)")
      case None
      with d b show ?thesis by (simp add: page_setters)
    next
      case x: (Some x)
      show ?thesis
      proof (cases "speedText (elements t)")
        case None
        with d b x show ?thesis by (simp add: page_setters)
      next
        case (Some y)
        with d b x show ?thesis by (simp add: page_setters)
      qed
    qed
  qed
qed

lemma reset_page_frame:
  "peer (snd (reset_page t)) = peer t"
  "selectedPeerId (snd (reset_page t)) = selectedPeerId t"
  "released (snd (reset_page t)) = released t"
  "fileQueue (snd (reset_page t)) = fileQueue t"
  "totalSize (snd (reset_page t)) = totalSize t"
  "fileSelector (elements (snd (reset_page t))) = fileSelector (elements t)"
  "fileList (elements (snd (reset_page t))) = fileList (elements t)"
  by (simp_all add: page_setters split: option.splits)

lemma reset_page_returns:
  "discoverBtn (elements t) \<noteq> None \<Longrightarrow> progressBar (elements t) \<noteq> None \<Longrightarrow>
   progressText (elements t) \<noteq> None \<Longrightarrow> speedText (elements t) \<noteq> None \<Longrightarrow>
   fst (reset_page t) = Returned ()"
  by (auto simp: page_setters)

section \<open>Claims about sending and teardown\<close>






text \<open>
  C8. \<open>cleanup\<close> is idempotent: called on the state that a call of \<open>cleanup\<close> left, it has
  the outcome of that call and leaves the state as it is. In particular, on a session that
  a \<open>cleanup\<close> has torn down without an error, a second \<open>cleanup\<close> raises no error and
  changes nothing.
\<close>

theorem C8_cleanup_idempotent:
  "cleanup (snd (cleanup s)) = cleanup s
   \<and> (fst (cleanup s) = Returned () \<longrightarrow>
        cleanup (snd (cleanup s)) = (Returned (), snd (cleanup s)))"
proof -
  define t where "t = (cleanup_peer s)\<lparr>selectedPeerId := ''''\<rparr>"
  define u where "u = snd (reset_page t)"
  have "peer u = None" "selectedPeerId u = ''''"
    by (simp_all add: u_def t_def reset_page_frame cleanup_peer_result)
  then have "(cleanup_peer u)\<lparr>selectedPeerId := ''''\<rparr> = u"
    by (simp add: cleanup_peer_without_peer)
  then have "cleanup u = reset_page u" by (simp add: cleanup_def)
  also have "\<dots> = reset_page t" by (simp add: u_def reset_page_twice)
  finally have "cleanup (snd (cleanup s)) = cleanup s"
    by (simp add: cleanup_def u_def t_def)
  then show ?thesis by (simp add: prod_eq_iff)
qed

theorem C8_cleanup_idempotent_witness:
  "fst (cleanup ((initial_state example_page)
          \<lparr>peer := Some (SimplePeer [] (Some (ErrorObject ''destroy failed''))), selectedPeerId := ''peerB''\<rparr>))
     = Returned ()
   \<and> cleanup (snd (cleanup ((initial_state example_page)
          \<lparr>peer := Some (SimplePeer [] (Some (ErrorObject ''destroy failed''))), selectedPeerId := ''peerB''\<rparr>)))
     = (Returned (), snd (cleanup ((initial_state example_page)
          \<lparr>peer := Some (SimplePeer [] (Some (ErrorObject ''destroy failed''))), selectedPeerId := ''peerB''\<rparr>)))"
proof -
  let ?s = "(initial_state example_page)
          \<lparr>peer := Some (SimplePeer [] (Some (ErrorObject ''destroy failed''))), selectedPeerId := ''peerB''\<rparr>"
  have r: "fst (cleanup ?s) = Returned ()"
    by (simp add: cleanup_def reset_page_returns cleanup_peer_result initial_state_def
          example_page_def)
  with C8_cleanup_idempotent [of ?s] show ?thesis by blast
qed

section \<open>Invariants of the client\<close>

lemma foldl_file_sizes:
  "foldl (\<lambda>sum f. sum + file_size f) n fs = n + sum_list (map file_size fs)"
  by (induction fs arbitrary: n) auto

lemma preserved_refl [simp]: "preserved s s"
  by (simp add: preserved_def)

lemma preserved_trans: "preserved s t \<Longrightarrow> preserved t u \<Longrightarrow> preserved s u"
  by (simp add: preserved_def)

lemma preserved_invariants:
  "preserved s s' \<Longrightarrow> selection_consistent s \<Longrightarrow> selection_consistent s'"
  "preserved s s' \<Longrightarrow> released_destroyed s \<Longrightarrow> released_destroyed s'"
  by (auto simp: preserved_def selection_consistent_def)

lemma peer_destroy_destroyed: "destroyed (snd (peer_destroy p))"
  by (simp add: peer_destroy_def)

lemma preserved_sendData: "preserved s (snd (sendData data s))"
  by (simp add: preserved_def sendData_frame released_destroyed_def)

lemma preserved_sendNextFile: "preserved s (snd (sendNextFile s))"
  by (simp add: preserved_def sendNextFile_frame released_destroyed_def)

lemma preserved_startFileTransfer: "preserved s (snd (startFileTransfer now s))"
proof -
  define s1 where "s1 = s\<lparr>currentFileIndex := 0, currentOffset := 0, receivedSize := 0\<rparr>"
  define m where "m = Metadata (map descriptor_of (fileQueue s1)) (totalSize s1) now"
  have first: "preserved s (snd (sendData m s1))"
  proof (rule preserved_trans [OF _ preserved_sendData])
    show "preserved s s1" by (simp add: s1_def preserved_def released_destroyed_def)
  qed
  show ?thesis
  proof (cases "fst (sendData m s1)")
    case (Returned b)
    then have "startFileTransfer now s = sendNextFile (snd (sendData m s1))"
      by (simp add: startFileTransfer_def s1_def m_def Let_def)
    with preserved_trans [OF first preserved_sendNextFile] show ?thesis by simp
  next
    case (Threw msg)
    then have "startFileTransfer now s = (Threw msg, snd (sendData m s1))"
      by (simp add: startFileTransfer_def s1_def m_def Let_def)
    with first show ?thesis by simp
  qed
qed

lemma preserved_reset_page: "preserved t (snd (reset_page t))"
  by (simp add: preserved_def reset_page_frame released_destroyed_def)

lemma preserved_cleanup_peer: "preserved s (cleanup_peer s)"
  by (auto simp: preserved_def cleanup_peer_def released_destroyed_def peer_destroy_def
           split: option.splits)

lemma preserved_cleanup: "preserved s (snd (cleanup s))"
proof -
  have "preserved (cleanup_peer s) ((cleanup_peer s)\<lparr>selectedPeerId := ''''\<rparr>)"
    by (simp add: preserved_def released_destroyed_def)
  from preserved_trans [OF preserved_trans [OF preserved_cleanup_peer this] preserved_reset_page]
  show ?thesis unfolding cleanup_def .
qed

lemma preserved_logMessage [simp]: "preserved s (logMessage text level s)"
  by (simp add: preserved_def logMessage_def released_destroyed_def)

lemma preserved_initiateTransfer: "preserved s (snd (initiateTransfer faults dthrows s))"
  by (auto simp: initiateTransfer_def preserved_def logMessage_def and_then_def setTimeout_def
                 released_destroyed_def peer_destroy_def Let_def
           split: option.splits)

lemma preserved_transfer_timeout: "preserved s (snd (transfer_timeout s))"
proof (cases "peer s")
  case None
  then show ?thesis by (simp add: transfer_timeout_def)
next
  case (Some p)
  show ?thesis
  proof (cases "connected p")
    case True
    with Some show ?thesis by (simp add: transfer_timeout_def)
  next
    case False
    define s1 where
      "s1 = logMessage ''Transfer timeout - connection took too long'' (Some ''error'') s"
    have "preserved s (snd (cleanup s1))"
      unfolding s1_def by (rule preserved_trans [OF preserved_logMessage preserved_cleanup])
    with Some False show ?thesis by (simp add: transfer_timeout_def s1_def)
  qed
qed

lemma preserved_peer_connects: "preserved s (snd (peer_connects now s))"
proof (cases "peer s")
  case None
  then show ?thesis by (simp add: peer_connects_def)
next
  case (Some p)
  show ?thesis
  proof (cases "destroyed p")
    case True
    with Some show ?thesis by (simp add: peer_connects_def)
  next
    case False
    show ?thesis
    proof (cases "connect_clears p")
      case None
      with Some False show ?thesis
        by (simp add: peer_connects_def preserved_def released_destroyed_def)
    next
      case (Some tid)
      define s1 where "s1 = logMessage ''Peer connection established!'' (Some ''success'')
                      (clearTimeout tid (s\<lparr>peer := Some (p\<lparr>connected := True\<rparr>)\<rparr>))"
      have "preserved s s1"
        by (simp add: s1_def preserved_def logMessage_def clearTimeout_def released_destroyed_def)
      then have "preserved s (snd (startFileTransfer now s1))"
        by (rule preserved_trans [OF _ preserved_startFileTransfer])
      with \<open>peer s = Some p\<close> False Some show ?thesis
        by (simp add: peer_connects_def s1_def)
    qed
  qed
qed

lemma handleFileSelect_early:
  "fileSelector (elements s) = None \<or> fileList (elements s) = None \<Longrightarrow>
     snd (handleFileSelect fmt s) = s"
  by (auto simp: handleFileSelect_def split: option.splits)

lemma handleFileSelect_released:
  "released (snd (handleFileSelect fmt s)) = released s"
  by (simp add: handleFileSelect_def and_then_def set_sendBtn_def logMessage_def Let_def
           split: option.splits)

lemma handleFileSelect_consistent:
  assumes "fileSelector (elements s) \<noteq> None" "fileList (elements s) \<noteq> None"
  shows "selection_consistent (snd (handleFileSelect fmt s))"
  using assms
  by (auto simp: handleFileSelect_def and_then_def set_sendBtn_def logMessage_def Let_def
                 selection_consistent_def foldl_file_sizes
           split: option.splits)

lemma handleFileSelect_invariants:
  assumes "fileQueue s = [] \<or> (fileSelector (elements s) \<noteq> None \<and> fileList (elements s) \<noteq> None)"
  shows "selection_consistent (snd (handleFileSelect fmt s))"
proof (cases "fileSelector (elements s) \<noteq> None \<and> fileList (elements s) \<noteq> None")
  case True
  then show ?thesis by (simp add: handleFileSelect_consistent)
next
  case False
  with assms have "fileQueue s = []" by blast
  moreover from False have "snd (handleFileSelect fmt s) = s"
    by (simp add: handleFileSelect_early)
  ultimately show ?thesis by (simp add: selection_consistent_def)
qed

lemma preserved_socket_handlers:
  "preserved s (snd (initializeSocketConnection s))"
  "preserved s (snd (socket_emit ev s))"
  "preserved s (snd (startPeerDiscovery s))"
  "preserved s (snd (discovery_interval tid s))"
  "preserved s (snd (socket_connect_error msg s))"
  by (auto simp: preserved_def initializeSocketConnection_def socket_emit_def
                 startPeerDiscovery_def discovery_interval_def socket_connect_error_def
                 setInterval_def clearTimeout_def logMessage_def released_destroyed_def Let_def
           split: option.splits)

lemma preserved_socket_connect: "preserved s (snd (socket_connect sid s))"
  by (auto simp: preserved_def socket_connect_def socket_emit_def startPeerDiscovery_def
                 setInterval_def logMessage_def updateConnectionStatus_def released_destroyed_def
           split: option.splits)

lemma preserved_socket_disconnect: "preserved s (snd (socket_disconnect reason s))"
  by (auto simp: preserved_def socket_disconnect_def setTimeout_def logMessage_def
                 updateConnectionStatus_def released_destroyed_def Let_def
           split: option.splits)

lemma preserved_clearTimeout [simp]: "preserved s (clearTimeout tid s)"
  by (simp add: preserved_def clearTimeout_def released_destroyed_def)

lemma preserved_callback:
  "preserved s1 (snd (case cb of
                TransferTimeout \<Rightarrow> transfer_timeout s1
              | InitializeSocketConnection \<Rightarrow> initializeSocketConnection s1
              | DiscoveryInterval \<Rightarrow> discovery_interval tid s1))"
  by (cases cb) (simp_all add: preserved_transfer_timeout preserved_socket_handlers)

lemma preserved_run_timer: "preserved s (snd (run_timer tid s))"
proof (cases "find (\<lambda>t. timer_id t = tid) (timers s)")
  case None
  then show ?thesis by (simp add: run_timer_def)
next
  case (Some t)
  show ?thesis
  proof (cases "timer_repeats t")
    case True
    with Some have "run_timer tid s =
        (case timer_callback t of
                TransferTimeout \<Rightarrow> transfer_timeout s
              | InitializeSocketConnection \<Rightarrow> initializeSocketConnection s
              | DiscoveryInterval \<Rightarrow> discovery_interval tid s)"
      by (simp add: run_timer_def Let_def)
    then show ?thesis by (simp only: preserved_callback)
  next
    case False
    with Some have "run_timer tid s =
        (case timer_callback t of
                TransferTimeout \<Rightarrow> transfer_timeout (clearTimeout tid s)
              | InitializeSocketConnection \<Rightarrow> initializeSocketConnection (clearTimeout tid s)
              | DiscoveryInterval \<Rightarrow> discovery_interval tid (clearTimeout tid s))"
      by (simp add: run_timer_def Let_def)
    then show ?thesis
      by (simp only: preserved_trans [OF preserved_clearTimeout preserved_callback])
  qed
qed

lemma preserved_before_unload:
  "preserved s (snd (client_handler fmt BeforeUnload s))"
proof -
  have "preserved (snd (cleanup s)) (snd (client_handler fmt BeforeUnload s))"
    by (auto simp: and_then_def preserved_def released_destroyed_def
             split: outcome.splits option.splits)
  from preserved_trans [OF preserved_cleanup this] show ?thesis .
qed

lemma client_step_invariants:
  assumes "selection_consistent s" "released_destroyed s"
  shows "selection_consistent (client_step fmt s i) \<and> released_destroyed (client_step fmt s i)"
proof (cases i)
  case (FilesPicked fs)
  define s1 where "s1 = s\<lparr>elements := (elements s)
            \<lparr>fileSelector := map_option (\<lambda>old. fs) (fileSelector (elements s))\<rparr>\<rparr>"
  from assms(1) have "fileQueue s1 = [] \<or>
      (fileSelector (elements s1) \<noteq> None \<and> fileList (elements s1) \<noteq> None)"
    by (auto simp: s1_def selection_consistent_def)
  then have "selection_consistent (snd (handleFileSelect fmt s1))"
    by (rule handleFileSelect_invariants)
  moreover from assms(2) have "released_destroyed (snd (handleFileSelect fmt s1))"
    by (simp add: released_destroyed_def handleFileSelect_released s1_def)
  ultimately show ?thesis using FilesPicked by (simp add: client_step_def s1_def)
next
  case (RemoveClicked index)
  define s1 where
    "s1 = s\<lparr>fileQueue := take index (fileQueue s) @ drop (Suc index) (fileQueue s)\<rparr>"
  from assms(1) have "fileQueue s1 = [] \<or>
      (fileSelector (elements s1) \<noteq> None \<and> fileList (elements s1) \<noteq> None)"
    by (auto simp: s1_def selection_consistent_def)
  then have "selection_consistent (snd (handleFileSelect fmt s1))"
    by (rule handleFileSelect_invariants)
  moreover from assms(2) have "released_destroyed (snd (handleFileSelect fmt s1))"
    by (simp add: released_destroyed_def handleFileSelect_released s1_def)
  ultimately show ?thesis using RemoveClicked
    by (simp add: client_step_def remove_file_clicked_def s1_def)
next
  case (PeerSelected sid)
  with assms show ?thesis
    by (simp add: client_step_def selection_consistent_def released_destroyed_def)
next
  case (SendClicked faults dthrows)
  with assms preserved_invariants [OF preserved_initiateTransfer] show ?thesis
    by (simp add: client_step_def)
next
  case (PeerConnects now)
  with assms preserved_invariants [OF preserved_peer_connects] show ?thesis
    by (simp add: client_step_def)
next
  case (TimerFires tid)
  with assms preserved_invariants [OF preserved_run_timer] show ?thesis
    by (simp add: client_step_def)
next
  case (SocketConnects sid)
  with assms preserved_invariants [OF preserved_socket_connect] show ?thesis
    by (simp add: client_step_def)
next
  case (SocketDisconnects reason)
  with assms preserved_invariants [OF preserved_socket_disconnect] show ?thesis
    by (simp add: client_step_def)
next
  case (SocketConnectError msg)
  with assms preserved_invariants [OF preserved_socket_handlers(5)] show ?thesis
    by (simp add: client_step_def)
next
  case BeforeUnload
  with assms preserved_invariants [OF preserved_before_unload] show ?thesis
    by (simp add: client_step_def)
qed

lemma client_run_invariants:
  "selection_consistent s \<Longrightarrow> released_destroyed s \<Longrightarrow>
     selection_consistent (client_run fmt s inputs) \<and> released_destroyed (client_run fmt s inputs)"
proof (induction inputs arbitrary: s)
  case Nil
  then show ?case by (simp add: client_run_def)
next
  case (Cons i inputs)
  from client_step_invariants [OF Cons.prems]
  have "selection_consistent (client_step fmt s i)" "released_destroyed (client_step fmt s i)"
    by simp_all
  from Cons.IH [OF this] show ?case by (simp add: client_run_def)
qed

lemma initial_state_invariants:
  "selection_consistent (initial_state els)" "released_destroyed (initial_state els)"
  by (simp_all add: selection_consistent_def released_destroyed_def initial_state_def)

lemma sendData_accepted:
  assumes "next_send_accepted s"
  shows "fst (sendData data s) = Returned True"
proof -
  from assms obtain p where p: "peer s = Some p" "connected p" "\<not> destroyed p"
      "case send_faults p of [] \<Rightarrow> True | f # rest \<Rightarrow> f = None"
    by (auto simp: next_send_accepted_def split: option.splits)
  then have "fst (peer_send data p) = None"
    by (cases "send_faults p") (auto simp: peer_send_def)
  with p show ?thesis by (simp add: sendData_send_returned)
qed

lemma d_size_descriptor_of [simp]: "d_size (descriptor_of f) = file_size f"
  by (simp add: descriptor_of_def)

lemma startFileTransfer_session:
  assumes "next_send_accepted s"
  shows "\<exists>rest. sent (snd (startFileTransfer now s)) =
            sent s @ Metadata (map descriptor_of (fileQueue s)) (totalSize s) now # rest
          \<and> list_all is_chunk rest"
proof -
  define s1 where "s1 = s\<lparr>currentFileIndex := 0, currentOffset := 0, receivedSize := 0\<rparr>"
  define m where "m = Metadata (map descriptor_of (fileQueue s)) (totalSize s) now"
  from assms have "next_send_accepted s1" by (simp add: s1_def next_send_accepted_def)
  then have ok: "fst (sendData m s1) = Returned True" by (rule sendData_accepted)
  then have run: "startFileTransfer now s = sendNextFile (snd (sendData m s1))"
    by (simp add: startFileTransfer_def s1_def m_def Let_def)
  from ok have "sent (snd (sendData m s1)) = sent s @ [m]"
    by (simp add: sendData_sent s1_def)
  moreover obtain cs where
    "sent (snd (sendNextFile (snd (sendData m s1)))) = sent (snd (sendData m s1)) @ cs"
    "list_all is_chunk cs"
    using sendNextFile_sends_chunks by blast
  ultimately have "sent (snd (startFileTransfer now s)) = sent s @ m # cs \<and> list_all is_chunk cs"
    using run by simp
  then show ?thesis unfolding m_def by blast
qed

section \<open>The example session\<close>

lemmas run_defs =
  client_run_def client_step_def handleFileSelect_def remove_file_clicked_def
  initiateTransfer_def peer_connects_def startFileTransfer_def sendData_def peer_send_def
  peer_destroy_def SimplePeer_def setTimeout_def clearTimeout_def logMessage_def
  and_then_def set_sendBtn_def get_prop_def config_def descriptor_of_def file_size_def
  initial_state_def example_page_def example_file_def empty_file_def sent_def digit_def Let_def
  enumerate_eq_zip

lemma example_session_fields:
  "fileQueue example_session = [example_file, empty_file]"
  "peer example_session = Some ((SimplePeer [] None)\<lparr>connect_clears := Some 0\<rparr>)"
  "released example_session = []"
  "selectedPeerId example_session = ''peerB''"
  "next_timer example_session = 1"
  by (simp_all add: example_session_def run_defs)

section \<open>Claims about the transfer session\<close>

text \<open>
  The metadata message when the first send is accepted. In every state the client can
  reach, with a non-empty file queue: when the data channel of the peer made by
  \<open>initiateTransfer\<close> opens and the first \<open>send\<close> is accepted, the first message of the
  session is the metadata message; its \<open>files\<close> are one descriptor for each queued file, in
  queue order, with the name, type, size and modification time of that file; its \<open>totalSize\<close>
  is the sum of the sizes listed, its \<open>timestamp\<close> is the time of the call; and every later
  message of the session is a chunk.
\<close>

lemma metadata_first_when_accepted:
  assumes "s = client_run fmt (initial_state els) inputs"
    and "fileQueue s \<noteq> []"
    and "peer s = Some p" and "\<not> destroyed p" and "connect_clears p = Some transferTimeout"
    and "case send_faults p of [] \<Rightarrow> True | f # rest \<Rightarrow> f = None"
  shows "\<exists>files rest.
           sent (snd (peer_connects now s)) =
             channel p @ Metadata files (sum_list (map d_size files)) now # rest
           \<and> length files = length (fileQueue s)
           \<and> (\<forall>i < length (fileQueue s).
                 files ! i =
                   \<lparr>d_name = name (fileQueue s ! i), d_type = type (fileQueue s ! i),
                    d_size = length (content (fileQueue s ! i)),
                    d_lastModified = lastModified (fileQueue s ! i)\<rparr>)
           \<and> list_all is_chunk rest"
proof -
  define s1 where "s1 = logMessage ''Peer connection established!'' (Some ''success'')
                      (clearTimeout transferTimeout (s\<lparr>peer := Some (p\<lparr>connected := True\<rparr>)\<rparr>))"
  define files where "files = map descriptor_of (fileQueue s)"
  from assms(3-5) have run: "peer_connects now s = startFileTransfer now s1"
    by (simp add: peer_connects_def s1_def)
  have same: "fileQueue s1 = fileQueue s" "totalSize s1 = totalSize s" "sent s1 = channel p"
    by (simp_all add: s1_def logMessage_def clearTimeout_def sent_def)
  from assms(4,6) have "next_send_accepted s1"
    by (simp add: next_send_accepted_def s1_def logMessage_def clearTimeout_def)
  from startFileTransfer_session [OF this, of now] same obtain rest where
    rest: "sent (snd (startFileTransfer now s1)) = channel p @ Metadata files (totalSize s) now # rest"
          "list_all is_chunk rest"
    by (auto simp: files_def)
  from assms(1) have "selection_consistent s"
    by (simp add: client_run_invariants initial_state_invariants)
  with assms(2) have total: "totalSize s = sum_list (map d_size files)"
    by (simp add: selection_consistent_def comp_def files_def)
  have each: "\<forall>i < length (fileQueue s).
                 files ! i =
                   \<lparr>d_name = name (fileQueue s ! i), d_type = type (fileQueue s ! i),
                    d_size = length (content (fileQueue s ! i)),
                    d_lastModified = lastModified (fileQueue s ! i)\<rparr>"
    by (simp add: files_def descriptor_of_def file_size_def)
  have "length files = length (fileQueue s)" by (simp add: files_def)
  with rest run total each show ?thesis by auto
qed

text \<open>
  C2. The first message of a session is not always the metadata message. With one
  three-byte file queued and a peer whose first \<open>send\<close> throws, the metadata message is
  never sent, and the first and only message of the session is the chunk of the file:
  \<open>startFileTransfer\<close> goes on to \<open>sendNextFile\<close> whatever \<open>sendData\<close> returned. On the same
  run with a peer whose sends are accepted, the session is the metadata message, with the
  descriptor of the file and its size as the total, followed by the chunk.
\<close>

theorem C2_no_metadata_after_failed_send:
  "fileQueue (client_run show_nat (initial_state example_page)
       [FilesPicked (Some [example_file]), PeerSelected ''peerB'',
        SendClicked [Some (ErrorObject ''boom'')] None]) = [example_file]
   \<and> sent (client_run show_nat (initial_state example_page)
       [FilesPicked (Some [example_file]), PeerSelected ''peerB'',
        SendClicked [Some (ErrorObject ''boom'')] None, PeerConnects 7]) = [Chunk [1, 2, 3]]
   \<and> sent (client_run show_nat (initial_state example_page)
       [FilesPicked (Some [example_file]), PeerSelected ''peerB'',
        SendClicked [] None, PeerConnects 7]) =
       [Metadata [\<lparr>d_name = ''a.txt'', d_type = ''text/plain'', d_size = 3, d_lastModified = 0\<rparr>]
          3 7,
        Chunk [1, 2, 3]]"
  by (simp add: run_defs sendNextFile.simps CHUNK_SIZE_def)

text \<open>
  C4. A failed send is reported and \<open>sendData\<close> returns \<open>false\<close>, but \<open>startFileTransfer\<close>
  does not look at that result. With one three-byte file queued and a peer whose first
  \<open>send\<close> throws, the log ends with the report of the failed metadata send, and the chunk
  of the file is sent after it: the transfer is not halted.
\<close>

theorem C4_transfer_continues_after_failed_send:
  "transferLog (client_run show_nat (initial_state example_page)
       [FilesPicked (Some [example_file]), PeerSelected ''peerB'',
        SendClicked [Some (ErrorObject ''boom'')] None, PeerConnects 7]) =
     [(''Selected 1 files (3)'', None), (''Initiating transfer...'', None),
      (''Peer connection established!'', Some ''success''),
      (''Failed to send data: boom'', Some ''error'')]
   \<and> sent (client_run show_nat (initial_state example_page)
       [FilesPicked (Some [example_file]), PeerSelected ''peerB'',
        SendClicked [Some (ErrorObject ''boom'')] None, PeerConnects 7]) = [Chunk [1, 2, 3]]"
  by (simp add: run_defs sendNextFile.simps CHUNK_SIZE_def)

text \<open>
  C10. At most one peer object of a client is alive at any time: whatever happens to a
  client, the peer objects that are not destroyed are at most the one \<open>state.peer\<close> refers
  to. \<open>cleanup\<close> destroys the peer and leaves the reference \<open>null\<close>; an \<open>initiateTransfer\<close>
  that passes its guard and returns has destroyed the peer there was, and \<open>state.peer\<close> is
  the object it created.
\<close>

theorem C10_at_most_one_live_peer:
  "length (live_peers (client_run fmt (initial_state els) inputs)) \<le> 1
   \<and> peer (snd (cleanup s)) = None
   \<and> (\<forall>p. peer s = Some p \<longrightarrow>
         released (snd (cleanup s)) = released s @ [p\<lparr>destroyed := True, connected := False\<rparr>])
   \<and> (selectedPeerId s \<noteq> '''' \<and> fileQueue s \<noteq> []
        \<and> fst (initiateTransfer faults dthrows s) = Returned () \<longrightarrow>
          peer (snd (initiateTransfer faults dthrows s)) =
            Some ((SimplePeer faults dthrows)\<lparr>connect_clears := Some (next_timer s)\<rparr>)
          \<and> released (snd (initiateTransfer faults dthrows s)) =
              released s @ (case peer s of
                              None \<Rightarrow> []
                            | Some p \<Rightarrow> [p\<lparr>destroyed := True, connected := False\<rparr>]))"
proof (intro conjI allI impI)
  have "released_destroyed (client_run fmt (initial_state els) inputs)"
    by (simp add: client_run_invariants initial_state_invariants)
  then have "filter (\<lambda>p. \<not> destroyed p) (released (client_run fmt (initial_state els) inputs)) = []"
    by (simp add: released_destroyed_def filter_empty_conv list_all_iff)
  then show "length (live_peers (client_run fmt (initial_state els) inputs)) \<le> 1"
    by (simp add: live_peers_def split: option.splits)
  show "peer (snd (cleanup s)) = None"
    by (simp add: cleanup_def reset_page_frame cleanup_peer_result)
  show "released (snd (cleanup s)) = released s @ [p\<lparr>destroyed := True, connected := False\<rparr>]"
    if "peer s = Some p" for p
    using that by (simp add: cleanup_def reset_page_frame cleanup_peer_releases peer_destroy_def)
  assume a: "selectedPeerId s \<noteq> '''' \<and> fileQueue s \<noteq> []
        \<and> fst (initiateTransfer faults dthrows s) = Returned ()"
  show "peer (snd (initiateTransfer faults dthrows s)) =
            Some ((SimplePeer faults dthrows)\<lparr>connect_clears := Some (next_timer s)\<rparr>)"
    using a
    by (auto simp: initiateTransfer_def and_then_def logMessage_def setTimeout_def peer_destroy_def
                   Let_def split: option.splits)
  show "released (snd (initiateTransfer faults dthrows s)) =
              released s @ (case peer s of
                              None \<Rightarrow> []
                            | Some p \<Rightarrow> [p\<lparr>destroyed := True, connected := False\<rparr>])"
    using a
    by (auto simp: initiateTransfer_def and_then_def logMessage_def setTimeout_def peer_destroy_def
                   Let_def split: option.splits)
qed

theorem C10_at_most_one_live_peer_witness:
  "selectedPeerId example_session \<noteq> '''' \<and> fileQueue example_session \<noteq> []
   \<and> fst (initiateTransfer [] None example_session) = Returned ()
   \<and> peer example_session = Some ((SimplePeer [] None)\<lparr>connect_clears := Some 0\<rparr>)
   \<and> peer (snd (initiateTransfer [] None example_session)) =
       Some ((SimplePeer [] None)\<lparr>connect_clears := Some 1\<rparr>)
   \<and> released (snd (initiateTransfer [] None example_session)) =
       [(SimplePeer [] None)\<lparr>connect_clears := Some 0, destroyed := True, connected := False\<rparr>]
   \<and> peer (snd (cleanup example_session)) = None
   \<and> released (snd (cleanup example_session)) =
       [(SimplePeer [] None)\<lparr>connect_clears := Some 0, destroyed := True, connected := False\<rparr>]"
proof -
  have r: "fst (initiateTransfer [] None example_session) = Returned ()"
    by (simp add: initiateTransfer_def and_then_def peer_destroy_def logMessage_def
          example_session_fields SimplePeer_def Let_def)
  from C10_at_most_one_live_peer [of show_nat example_page "[]" example_session "[]" None] r
  show ?thesis by (simp add: example_session_fields)
qed


section \<open>Claims about the signaling connection and the network endpoint\<close>

lemmas socket_defs =
  client_run_def client_step_def initializeSocketConnection_def socket_connect_error_def
  socket_disconnect_def run_timer_def setTimeout_def clearTimeout_def logMessage_def
  updateConnectionStatus_def retries_after_def get_prop_def config_def initial_state_def
  digit_def Let_def

text \<open>
  C6. The bound on reconnection is not in force. \<open>state.maxConnectionAttempts\<close> is 5, but
  the option \<open>reconnectionAttempts\<close> is read from \<open>config.maxConnectionAttempts\<close>, which
  \<open>config\<close> does not have: the socket is made with \<open>reconnectionAttempts: undefined\<close>
  (and \<open>reconnectionDelay: 3000\<close>), for which the library keeps retrying after 5 failures.
  The \<open>connect_error\<close> listener counts a sixth failure and compares the count with nothing,
  and after six reconnections following a server disconnect a seventh is scheduled.
\<close>

theorem C6_reconnection_is_not_bounded:
  "maxConnectionAttempts (initial_state example_page) = 5
   \<and> map_option (\<lambda>k. reconnectionAttempts (sock_options k))
        (socket (snd (initializeSocketConnection (initial_state example_page)))) = Some Undefined
   \<and> map_option (\<lambda>k. reconnectionDelay (sock_options k))
        (socket (snd (initializeSocketConnection (initial_state example_page)))) = Some (Num 3000)
   \<and> map_option (\<lambda>k. retries_after (sock_options k) 5)
        (socket (snd (initializeSocketConnection (initial_state example_page)))) = Some True
   \<and> connectionAttempts (client_run show_nat
          (snd (initializeSocketConnection (initial_state example_page)))
          [SocketConnectError ''timeout'', SocketConnectError ''timeout'',
           SocketConnectError ''timeout'', SocketConnectError ''timeout'',
           SocketConnectError ''timeout'', SocketConnectError ''timeout'']) = 6
   \<and> last (transferLog (client_run show_nat
          (snd (initializeSocketConnection (initial_state example_page)))
          [SocketConnectError ''timeout'', SocketConnectError ''timeout'',
           SocketConnectError ''timeout'', SocketConnectError ''timeout'',
           SocketConnectError ''timeout'', SocketConnectError ''timeout''])) =
        (''Connection error (attempt 6/undefined): timeout'', Some ''error'')
   \<and> timers (client_run show_nat
          (snd (initializeSocketConnection (initial_state example_page)))
          [SocketDisconnects ''io server disconnect'', TimerFires 0,
           SocketDisconnects ''io server disconnect'', TimerFires 1,
           SocketDisconnects ''io server disconnect'', TimerFires 2,
           SocketDisconnects ''io server disconnect'', TimerFires 3,
           SocketDisconnects ''io server disconnect'', TimerFires 4,
           SocketDisconnects ''io server disconnect'', TimerFires 5,
           SocketDisconnects ''io server disconnect'']) =
        [\<lparr>timer_id = 6, timer_callback = InitializeSocketConnection, timer_delay = Num 3000,
          timer_repeats = False\<rparr>]"
  by (simp add: socket_defs)

text \<open>
  C7, as stated, fails: when \<open>ip.address()\<close> throws, the response of \<open>GET /network\<close> is an
  error response, and when it returns \<open>undefined\<close> the response has no \<open>localIp\<close>; in
  neither case is it a success with \<open>localIp: null\<close>.
\<close>

theorem C7_network_counterexample:
  "\<not> succeeds_with_null_ip (network_handler (Threw ''uv_interface_addresses failed'') [])
   \<and> network_handler (Threw ''uv_interface_addresses failed'') [] =
       ServerError ''uv_interface_addresses failed''
   \<and> \<not> succeeds_with_null_ip (network_handler (Returned Undefined) [])"
  by (simp add: succeeds_with_null_ip_def network_handler_def json_object_def)

text \<open>
  C7, amended. When \<open>ip.address()\<close> returns, \<open>GET /network\<close> answers with the JSON object
  \<open>{localIp, publicUrl}\<close> whose \<open>localIp\<close> is the value returned; the handler has no
  fallback, so \<open>localIp\<close> is \<open>null\<close> only if \<open>ip.address()\<close> returned \<open>null\<close>, and an exception
  of \<open>ip.address()\<close> gives an error response. The \<open>null\<close> default is the client's:
  \<open>fetchNetworkInfo\<close> returns \<open>{localIp: null}\<close> when the request fails or the response is an
  error response, and the body of the response otherwise.
\<close>

theorem C7_network_response:
  "network_handler (Returned localIp) env =
     Json (json_object
       [(''localIp'', localIp),
        (''publicUrl'',
         Str (''https://'' @ template (get_prop env ''CODESPACE_NAME'') @ ''-3000.''
                @ template (get_prop env ''GITHUB_CODESPACES_PORT_FORWARDING_DOMAIN'')))])
   \<and> network_handler (Threw msg) env = ServerError msg
   \<and> succeeds_with_null_ip (network_handler address env) = (address = Returned Null)
   \<and> fst (fetchNetworkInfo (fetch_of (network_handler (Threw msg) env)) s) = [(''localIp'', Null)]
   \<and> fst (fetchNetworkInfo (FetchRejected msg) s) = [(''localIp'', Null)]
   \<and> fst (fetchNetworkInfo (fetch_of (network_handler (Returned localIp) env)) s) =
       json_object
         [(''localIp'', localIp),
          (''publicUrl'',
           Str (''https://'' @ template (get_prop env ''CODESPACE_NAME'') @ ''-3000.''
                  @ template (get_prop env ''GITHUB_CODESPACES_PORT_FORWARDING_DOMAIN'')))]"
  by (cases address)
     (auto simp: network_handler_def succeeds_with_null_ip_def json_object_def
                 fetchNetworkInfo_def fetch_of_def)

section \<open>Properties of the receive side\<close>

lemma receive_all_append:
  "receive_all r (xs @ ys) = receive_all (receive_all r xs) ys"
  by (simp add: receive_all_def)

lemma receive_all_Cons: "receive_all r (m # ms) = receive_all (receive r m) ms"
  by (simp add: receive_all_def)

lemma receive_all_Nil [simp]: "receive_all r [] = r"
  by (simp add: receive_all_def)

lemma next_nonempty_here:
  "k < length files \<Longrightarrow> d_size (files ! k) \<noteq> 0 \<Longrightarrow> next_nonempty files k = k"
  by (simp add: next_nonempty_def Cons_nth_drop_Suc [symmetric])

lemma next_nonempty_skip:
  "k < length files \<Longrightarrow> d_size (files ! k) = 0 \<Longrightarrow>
     next_nonempty files k = next_nonempty files (Suc k)"
  by (simp add: next_nonempty_def Cons_nth_drop_Suc [symmetric])

lemma release_only_buffer: "dom m \<subseteq> {i} \<Longrightarrow> m(i := None) = Map.empty"
  by (rule ext) (auto simp: domIff subset_iff)

text \<open>The last chunk of a file completes it.\<close>

lemma receive_last_chunk:
  assumes "receiving files i pre r" and "d_size (files ! i) = length pre + length c"
  shows "between_files files (Suc i) (receive r (Chunk c))"
    and "r_completed (receive r (Chunk c)) = r_completed r @ [(i, pre @ c)]"
    and "r_receivedSize (receive r (Chunk c)) = r_receivedSize r + length c"
  using assms
  by (auto simp: receiving_def between_files_def Let_def release_only_buffer)

text \<open>A chunk that leaves the file incomplete is buffered.\<close>

lemma receive_inner_chunk:
  assumes "receiving files i pre r" and "length pre + length c < d_size (files ! i)"
  shows "receiving files i (pre @ c) (receive r (Chunk c))"
    and "r_completed (receive r (Chunk c)) = r_completed r"
    and "r_receivedSize (receive r (Chunk c)) = r_receivedSize r + length c"
  using assms
  by (auto simp: receiving_def buffer_of_def Let_def)

lemma file_received:
  assumes "receiving files i pre r" and "d_size (files ! i) = length pre + length bytes"
    and "bytes \<noteq> []"
  shows "between_files files (Suc i) (receive_all r (map Chunk (chunks bytes)))
       \<and> r_completed (receive_all r (map Chunk (chunks bytes))) = r_completed r @ [(i, pre @ bytes)]
       \<and> r_receivedSize (receive_all r (map Chunk (chunks bytes))) = r_receivedSize r + length bytes"
  using assms
proof (induction bytes arbitrary: r pre rule: chunks.induct)
  case (1 bytes)
  let ?c = "take CHUNK_SIZE bytes"
  let ?rest = "drop CHUNK_SIZE bytes"
  have split: "bytes = ?c @ ?rest" by simp
  have len: "length bytes = length ?c + length ?rest"
    by (subst split) (simp only: length_append)
  from "1.prems"(3) have unfold: "chunks bytes = ?c # chunks ?rest"
    by (simp add: chunks_nonempty)
  show ?case
  proof (cases "?rest = []")
    case True
    then have "bytes = ?c" by simp
    with "1.prems" True unfold receive_last_chunk [of files i pre r ?c]
    show ?thesis by (simp add: receive_all_Cons)
  next
    case False
    then have "0 < length ?rest" by simp
    with len "1.prems"(2) have less: "length pre + length ?c < d_size (files ! i)" by linarith
    note inner = receive_inner_chunk [OF "1.prems"(1) less]
    from len "1.prems"(2) have size: "d_size (files ! i) = length (pre @ ?c) + length ?rest"
      by simp
    let ?r1 = "receive r (Chunk ?c)"
    from "1.IH" [OF "1.prems"(3) inner(1) size False]
    have ih: "between_files files (Suc i) (receive_all ?r1 (map Chunk (chunks ?rest)))"
      "r_completed (receive_all ?r1 (map Chunk (chunks ?rest))) =
         r_completed ?r1 @ [(i, (pre @ ?c) @ ?rest)]"
      "r_receivedSize (receive_all ?r1 (map Chunk (chunks ?rest))) =
         r_receivedSize ?r1 + length ?rest"
      by blast+
    have run: "receive_all r (map Chunk (chunks bytes)) =
                 receive_all ?r1 (map Chunk (chunks ?rest))"
      by (simp only: unfold list.map receive_all_Cons)
    have bytes: "(pre @ ?c) @ ?rest = pre @ bytes" by simp
    have "r_receivedSize ?r1 + length ?rest = r_receivedSize r + length bytes"
      using inner(3) len by linarith
    with ih inner(2) bytes show ?thesis
      by (simp only: run)
  qed
qed

lemma pending_split:
  assumes "k < length q"
  shows "pending q k 0 = chunks (content (q ! k)) @ pending q (Suc k) 0"
proof (cases "Suc k < length q")
  case True
  then have "drop (Suc k) q = q ! Suc k # drop (Suc (Suc k)) q"
    by (simp add: Cons_nth_drop_Suc)
  with assms True show ?thesis by (simp add: pending_def)
next
  case False
  with assms show ?thesis by (simp add: pending_def)
qed

lemma between_files_receiving:
  assumes "between_files files k r" "k < length files" "d_size (files ! k) \<noteq> 0"
  shows "receiving files k [] r"
  using assms by (simp add: between_files_def receiving_def next_nonempty_here buffer_of_def)

lemma between_files_skip:
  assumes "between_files files k r" "k < length files" "d_size (files ! k) = 0"
  shows "between_files files (Suc k) r"
  using assms by (simp add: between_files_def next_nonempty_skip)

lemma files_received:
  assumes "files = map descriptor_of q"
  shows "between_files files k r \<Longrightarrow>
     r_files (receive_all r (map Chunk (pending q k 0))) = Some files
     \<and> \<not> r_violation (receive_all r (map Chunk (pending q k 0)))
     \<and> r_completed (receive_all r (map Chunk (pending q k 0))) =
         r_completed r @
           map (\<lambda>i. (i, content (q ! i))) (filter (\<lambda>i. content (q ! i) \<noteq> []) [k..<length q])
     \<and> r_receivedSize (receive_all r (map Chunk (pending q k 0))) =
         r_receivedSize r + sum_list (map file_size (drop k q))"
proof (induction "length q - k" arbitrary: k r)
  case 0
  then have past: "length q \<le> k" by simp
  with 0 show ?case
    by (simp add: pending_done between_files_def)
next
  case (Suc n)
  then have k: "k < length q" and n: "n = length q - Suc k" by simp_all
  from k assms have kf: "k < length files"
    and sz: "d_size (files ! k) = length (content (q ! k))"
    by (simp_all add: descriptor_of_def file_size_def)
  from k have upt: "[k..<length q] = k # [Suc k..<length q]" by (simp add: upt_conv_Cons)
  from k have drop: "drop k q = q ! k # drop (Suc k) q" by (simp add: Cons_nth_drop_Suc)
  show ?case
  proof (cases "content (q ! k) = []")
    case True
    with sz Suc.prems kf have "between_files files (Suc k) r"
      by (simp add: between_files_skip)
    from Suc.hyps(1) [OF n this] True k show ?thesis
      by (simp add: pending_split upt drop file_size_def)
  next
    case False
    let ?r1 = "receive_all r (map Chunk (chunks (content (q ! k))))"
    from False sz Suc.prems kf have "receiving files k [] r"
      by (simp add: between_files_receiving)
    from file_received [OF this _ False] sz
    have r1: "between_files files (Suc k) ?r1"
      "r_completed ?r1 = r_completed r @ [(k, content (q ! k))]"
      "r_receivedSize ?r1 = r_receivedSize r + length (content (q ! k))"
      by simp_all
    from Suc.hyps(1) [OF n r1(1)] r1(2,3) False k show ?thesis
      by (simp add: pending_split upt drop file_size_def receive_all_append)
  qed
qed

lemma metadata_received:
  "between_files files 0 (receive receiver_init (Metadata files total_size timestamp))"
  "r_completed (receive receiver_init (Metadata files total_size timestamp)) =
     map (\<lambda>i. (i, [])) (filter (\<lambda>i. d_size (files ! i) = 0) [0..<length files])"
  "r_receivedSize (receive receiver_init (Metadata files total_size timestamp)) = 0"
  "r_totalSize (receive receiver_init (Metadata files total_size timestamp)) = total_size"
  by (simp_all add: receiver_init_def between_files_def)

lemma startFileTransfer_open:
  assumes "channel_open s"
  shows "fst (startFileTransfer now s) = Returned ()"
    and "session_messages s (snd (startFileTransfer now s)) =
           Metadata (map descriptor_of (fileQueue s)) (totalSize s) now
             # map Chunk (pending (fileQueue s) 0 0)"
proof -
  define s1 where "s1 = s\<lparr>currentFileIndex := 0, currentOffset := 0, receivedSize := 0\<rparr>"
  define m where "m = Metadata (map descriptor_of (fileQueue s)) (totalSize s) now"
  define s2 where "s2 = snd (sendData m s1)"
  from assms have "channel_open s1" by (simp add: s1_def)
  from sendData_open [OF this, of m]
  have ok: "fst (sendData m s1) = Returned True" and open2: "channel_open s2"
    by (simp_all add: s2_def)
  from ok have run: "startFileTransfer now s = sendNextFile s2"
    by (simp add: startFileTransfer_def s1_def m_def s2_def Let_def)
  from ok have sent2: "sent s2 = sent s @ [m]"
    by (simp add: s2_def sendData_sent s1_def)
  have cursor: "fileQueue s2 = fileQueue s" "currentFileIndex s2 = 0" "currentOffset s2 = 0"
    by (simp_all add: s2_def sendData_frame s1_def)
  from sendNextFile_open [OF open2] cursor sent2
  have "sent (snd (sendNextFile s2)) = sent s @ m # map Chunk (pending (fileQueue s) 0 0)"
    by simp
  with run show "session_messages s (snd (startFileTransfer now s)) =
           Metadata (map descriptor_of (fileQueue s)) (totalSize s) now
             # map Chunk (pending (fileQueue s) 0 0)"
    by (simp add: session_messages_def m_def)
  from run sendNextFile_open [OF open2] show "fst (startFileTransfer now s) = Returned ()"
    by simp
qed

lemma map_of_tabulate:
  "map_of (map (\<lambda>i. (i, f i)) xs) i = (if i \<in> set xs then Some (f i) else None)"
  by (induction xs) auto

section \<open>The round trip of a transfer\<close>

text \<open>
  C1. Over an established channel on which no \<open>send\<close> fails, \<open>startFileTransfer\<close> returns,
  and a receiver that is given the messages of the session in the order they were sent
  reports no protocol violation and completes every queued file exactly once, with the
  bytes of the original file: there are as many completed files as queued ones, and the
  artifact completed for index \<open>i\<close> is the content of file \<open>i\<close> of the queue. The bytes
  received add up to the sizes of the queued files.
\<close>

theorem C1_chunked_transfer_roundtrip:
  assumes "channel_open s"
  shows "fst (startFileTransfer now s) = Returned ()
     \<and> \<not> r_violation
           (receive_all receiver_init (session_messages s (snd (startFileTransfer now s))))
     \<and> length (r_completed
           (receive_all receiver_init (session_messages s (snd (startFileTransfer now s)))))
         = length (fileQueue s)
     \<and> (\<forall>i < length (fileQueue s).
           map_of (r_completed
             (receive_all receiver_init (session_messages s (snd (startFileTransfer now s))))) i
           = Some (content (fileQueue s ! i)))
     \<and> r_receivedSize
           (receive_all receiver_init (session_messages s (snd (startFileTransfer now s))))
         = sum_list (map file_size (fileQueue s))"
proof -
  define q where "q = fileQueue s"
  define files where "files = map descriptor_of q"
  define r0 where "r0 = receive receiver_init (Metadata files (totalSize s) now)"
  define R where
    "R = receive_all receiver_init (session_messages s (snd (startFileTransfer now s)))"
  from startFileTransfer_open [OF assms, of now]
  have ret: "fst (startFileTransfer now s) = Returned ()"
    and R: "R = receive_all r0 (map Chunk (pending q 0 0))"
    by (simp_all add: R_def r0_def files_def q_def receive_all_Cons)
  have size: "d_size (files ! i) = 0 \<longleftrightarrow> content (q ! i) = []" if "i < length q" for i
    using that by (simp add: files_def descriptor_of_def file_size_def)
  have "filter (\<lambda>i. d_size (files ! i) = 0) [0..<length files]
          = filter (\<lambda>i. content (q ! i) = []) [0..<length q]"
    by (rule filter_cong) (simp_all add: size, simp add: files_def)
  with metadata_received [of files "totalSize s" now]
  have r0: "between_files files 0 r0"
    "r_completed r0 = map (\<lambda>i. (i, [])) (filter (\<lambda>i. content (q ! i) = []) [0..<length q])"
    "r_receivedSize r0 = 0"
    by (simp_all add: r0_def)
  from files_received [OF files_def r0(1)] r0(2,3) R
  have viol: "\<not> r_violation R"
    and comp: "r_completed R =
        map (\<lambda>i. (i, [])) (filter (\<lambda>i. content (q ! i) = []) [0..<length q]) @
        map (\<lambda>i. (i, content (q ! i))) (filter (\<lambda>i. content (q ! i) \<noteq> []) [0..<length q])"
    and total: "r_receivedSize R = sum_list (map file_size q)"
    by simp_all
  have len: "length (r_completed R) = length q"
    using sum_length_filter_compl [of "\<lambda>i. content (q ! i) = []" "[0..<length q]"]
    by (simp add: comp)
  have each: "map_of (r_completed R) i = Some (content (q ! i))" if "i < length q" for i
  proof (cases "content (q ! i) = []")
    case True
    with that show ?thesis
      by (simp add: comp map_of_tabulate [of "\<lambda>i. []"] map_add_def)
  next
    case False
    with that show ?thesis
      by (simp add: comp map_of_tabulate [of "\<lambda>i. []"]
                    map_of_tabulate [of "\<lambda>i. content (q ! i)"] map_add_def)
  qed
  from ret viol len each total show ?thesis
    unfolding R_def q_def by blast
qed

theorem C1_chunked_transfer_roundtrip_witness:
  "channel_open example_connected
   \<and> fileQueue example_connected = [example_file, empty_file]
   \<and> map_of (r_completed (receive_all receiver_init
         (session_messages example_connected (snd (startFileTransfer 7 example_connected))))) 0
       = Some [1, 2, 3]
   \<and> map_of (r_completed (receive_all receiver_init
         (session_messages example_connected (snd (startFileTransfer 7 example_connected))))) 1
       = Some []"
proof -
  have opened: "channel_open example_connected"
    by (simp add: channel_open_def example_connected_def SimplePeer_def)
  have q: "fileQueue example_connected = [example_file, empty_file]"
    by (simp add: example_connected_def example_session_fields)
  from C1_chunked_transfer_roundtrip [OF opened, of 7]
  have each: "\<forall>i < length (fileQueue example_connected).
           map_of (r_completed (receive_all receiver_init
             (session_messages example_connected (snd (startFileTransfer 7 example_connected))))) i
           = Some (content (fileQueue example_connected ! i))"
    by blast
  from each [rule_format, of 0] each [rule_format, of 1] opened q
  show ?thesis by (simp add: example_file_def empty_file_def)
qed

end
